theory Spec2Isabelle
  imports Main
begin

section \<open>The Pub/Sub subscriber: from a message to a ProwJob\<close>

text \<open>
  A shallow embedding of \<^verbatim>\<open>prow/pubsub/subscriber/subscriber.go\<close>: the three job
  handlers (\<^verbatim>\<open>getProwJobSpec\<close> of the periodic, presubmit and postsubmit handler),
  \<^verbatim>\<open>extractFromAttribute\<close>, \<^verbatim>\<open>handleMessage\<close> and \<^verbatim>\<open>handleProwJob\<close>.

  The contents of a Go \<^verbatim>\<open>map[string]string\<close> are a partial function; a map that is
  shared and written is a reference into a store, and \<^verbatim>\<open>nil\<close> is \<open>None\<close>. Go's \<^verbatim>\<open>(value, error)\<close> results keep their shape:
  the handlers return the triple the source returns. Log lines and the calls made on the
  collaborators (job handler, reporter, ProwJob client) are collected, in order, in a
  list of effects that \<^verbatim>\<open>handleProwJob\<close> and \<^verbatim>\<open>handleMessage\<close> return beside their
  result; a job handler returns the lines it logs.
\<close>

subsection \<open>Errors, log levels\<close>

text \<open>
  One constructor per error the source builds; the argument is what the format string
  is filled with. \<open>ErrorsNew m\<close> is \<^verbatim>\<open>errors.New(m)\<close>; \<open>External m\<close> is an error handed
  back by a collaborator (JSON decoding, in-repo configuration, backend, reporter).
\<close>

datatype error =
    ErrorsNew string
  | PeriodicNotFound string
  | PresubmitNotFound string
  | PostsubmitNotFound string
  | MatchesMultiple string
  | AttributeNotFound string
  | UnsupportedEventType string
  | FailedGettingSpec
  | ClusterNotAllowed string
  | External string

datatype level = DebugLevel | InfoLevel | WarnLevel | ErrorLevel

subsection \<open>Kubernetes and ProwJob data\<close>

record EnvVar =
  EnvVar_Name :: string
  EnvVar_Value :: string

record Container =
  Container_Name :: string
  Env :: "EnvVar list"

record PodSpec =
  Containers :: "Container list"

record Pull =
  SHA :: string

record Refs =
  Org :: string
  Repo :: string
  BaseRef :: string
  BaseSHA :: string
  Pulls :: "Pull list"

text \<open>
  \<^verbatim>\<open>v1.ProwJobSpec\<close>: the source reads \<^verbatim>\<open>Cluster\<close> and \<^verbatim>\<open>PodSpec\<close> (a pointer, so an
  option); \<open>emptyProwJobSpec\<close> is the zero value \<^verbatim>\<open>prowapi.ProwJobSpec{}\<close>.
\<close>

record ProwJobSpec =
  Type :: string
  Job :: string
  Spec_Refs :: "Refs option"
  Cluster :: string
  Spec_PodSpec :: "PodSpec option"

definition emptyProwJobSpec :: ProwJobSpec where
  "emptyProwJobSpec =
     \<lparr>Type = [], Job = [], Spec_Refs = None, Cluster = [], Spec_PodSpec = None\<rparr>"

datatype ProwJobState = TriggeredState | ErrorState

text \<open>
  The description of a status: a literal text, or
  \<^verbatim>\<open>fmt.Sprintf("Failed creating prowjob: %v", err)\<close>.
\<close>

datatype description = Text string | FailedCreatingProwjob error

record ProwJobStatus =
  State :: ProwJobState
  Description :: description

record ProwJob =
  ProwJob_Name :: string
  ProwJob_Labels :: "string \<rightharpoonup> string"
  ProwJob_Annotations :: "string \<rightharpoonup> string"
  Spec :: ProwJobSpec
  Status :: ProwJobStatus

subsection \<open>Events and job definitions\<close>

text \<open>
  \<^verbatim>\<open>ProwJobEvent\<close>. \<^verbatim>\<open>Refs\<close> is a pointer. The three maps are only read and ranged over,
  where a \<^verbatim>\<open>nil\<close> map and an empty one behave alike.
\<close>

record ProwJobEvent =
  Name :: string
  Refs :: "Refs option"
  Envs :: "string \<rightharpoonup> string"
  Labels :: "string \<rightharpoonup> string"
  Annotations :: "string \<rightharpoonup> string"

text \<open>
  A Go map is a reference: a struct that is copied, returned or ranged over still holds
  the same map. The \<^verbatim>\<open>Labels\<close> of a job definition are returned by the handlers
  uncopied and written by \<^verbatim>\<open>handleProwJob\<close>, so they are modelled as such a
  reference: \<open>map_ref\<close> is the address of a map and the \<open>store\<close> gives the contents of
  every map. The store is the part of the configuration that the subscriber can change;
  it is passed to \<^verbatim>\<open>handleProwJob\<close> and \<^verbatim>\<open>handleMessage\<close> and returned by them.
\<close>

type_synonym map_ref = nat

type_synonym store = "map_ref \<Rightarrow> (string \<rightharpoonup> string)"

text \<open>
  The job definitions of package \<^verbatim>\<open>config\<close>. The handlers read \<^verbatim>\<open>Name\<close> and
  \<^verbatim>\<open>Labels\<close> (a map that may be \<^verbatim>\<open>nil\<close>, so an option of a reference); the other fields
  are those the specification lists for a job definition.
\<close>

record Periodic =
  Periodic_Name :: string
  Periodic_Labels :: "map_ref option"
  Periodic_Cluster :: string
  Periodic_Spec :: "PodSpec option"

record Presubmit =
  Presubmit_Name :: string
  Presubmit_Labels :: "map_ref option"
  Presubmit_Branches :: "string list"
  Presubmit_Cluster :: string
  Presubmit_Spec :: "PodSpec option"

record Postsubmit =
  Postsubmit_Name :: string
  Postsubmit_Labels :: "map_ref option"
  Postsubmit_Branches :: "string list"
  Postsubmit_Cluster :: string
  Postsubmit_Spec :: "PodSpec option"

subsection \<open>Collaborators\<close>

text \<open>\<^verbatim>\<open>git.ClientFactory\<close>: an opaque handle, compared with \<^verbatim>\<open>nil\<close> only.\<close>

datatype ClientFactory = ClientFactory nat

text \<open>\<^verbatim>\<open>config.RefGetter\<close> is \<^verbatim>\<open>func() (string, error)\<close>.\<close>

type_synonym RefGetter = "unit \<Rightarrow> error + string"

text \<open>
  \<^verbatim>\<open>prowCfgClient\<close>, the interface the handlers see the configuration through. The
  two dynamic getters return \<^verbatim>\<open>(jobs, error)\<close>; the source drops the jobs when the
  error is set, so the pair is a sum here.
\<close>

record prowCfgClient =
  AllPeriodics :: "Periodic list"
  GetPresubmits :: "ClientFactory \<Rightarrow> string \<Rightarrow> RefGetter \<Rightarrow> RefGetter list \<Rightarrow> error + Presubmit list"
  GetPresubmitsStatic :: "string \<Rightarrow> Presubmit list"
  GetPostsubmits :: "ClientFactory \<Rightarrow> string \<Rightarrow> RefGetter \<Rightarrow> RefGetter list \<Rightarrow> error + Postsubmit list"
  GetPostsubmitsStatic :: "string \<Rightarrow> Postsubmit list"

text \<open>
  \<^verbatim>\<open>reportClient\<close>. \<^verbatim>\<open>Report\<close> returns three values, of which the source keeps the
  error only.
\<close>

record reportClient =
  ShouldReport :: "ProwJob \<Rightarrow> bool"
  Report :: "ProwJob \<Rightarrow> error option"

text \<open>
  Functions of other packages that the subscriber calls; they are parameters here, and
  every theorem below holds for whatever they compute.
  \<^item> \<open>Presubmit_CouldRun\<close>, \<open>Postsubmit_CouldRun\<close>: \<^verbatim>\<open>job.CouldRun(branch)\<close>;
  \<^item> \<open>PeriodicSpec\<close>, \<open>PresubmitSpec\<close>, \<open>PostsubmitSpec\<close>, \<open>NewProwJob\<close>: package
    \<^verbatim>\<open>pjutil\<close>;
  \<^item> \<open>FromPayload\<close>: \<^verbatim>\<open>json.Unmarshal\<close> of a payload into a \<^verbatim>\<open>ProwJobEvent\<close>;
  \<^item> \<open>range_map\<close>: the order in which the Go runtime lets the \<open>n\<close>-th \<^verbatim>\<open>range\<close>
    statement of \<^verbatim>\<open>handleProwJob\<close> visit the entries of a map (number 0 is the loop
    over the event's labels, number \<open>i + 1\<close> the loop over the event's environment
    for container \<open>i\<close>).
\<close>

record Externals =
  Presubmit_CouldRun :: "Presubmit \<Rightarrow> string \<Rightarrow> bool"
  Postsubmit_CouldRun :: "Postsubmit \<Rightarrow> string \<Rightarrow> bool"
  PeriodicSpec :: "Periodic \<Rightarrow> ProwJobSpec"
  PresubmitSpec :: "Presubmit \<Rightarrow> Refs \<Rightarrow> ProwJobSpec"
  PostsubmitSpec :: "Postsubmit \<Rightarrow> Refs \<Rightarrow> ProwJobSpec"
  NewProwJob :: "ProwJobSpec \<Rightarrow> (string \<rightharpoonup> string) option \<Rightarrow> (string \<rightharpoonup> string) \<Rightarrow> ProwJob"
  FromPayload :: "string \<Rightarrow> error + ProwJobEvent"
  range_map :: "nat \<Rightarrow> (string \<rightharpoonup> string) \<Rightarrow> (string \<times> string) list"

text \<open>
  What a \<^verbatim>\<open>range\<close> over a map guarantees: every entry is visited once, in some order.
\<close>

definition ranges_over :: "(string \<times> string) list \<Rightarrow> (string \<rightharpoonup> string) \<Rightarrow> bool" where
  "ranges_over kvs m = (distinct (map fst kvs) \<and> map_of kvs = m)"

subsection \<open>Effects\<close>

datatype effect =
    Log level string
  | Call_getProwJobSpec ProwJobEvent
  | Call_ShouldReport ProwJob
  | Call_Report ProwJob
  | Call_Create ProwJob

text \<open>
  What \<^verbatim>\<open>getProwJobSpec\<close> returns, beside the lines it logs, and the interface
  \<^verbatim>\<open>jobHandler\<close>.
\<close>

type_synonym spec_result =
  "(ProwJobSpec option \<times> map_ref option \<times> error option) \<times> (level \<times> string) list"

type_synonym jobHandler = "prowCfgClient \<Rightarrow> ProwJobEvent \<Rightarrow> spec_result"

subsection \<open>The periodic handler\<close>

text \<open>The loop of \<^verbatim>\<open>periodicJobHandler.getProwJobSpec\<close>: the first job of that name.\<close>

fun periodic_scan :: "string \<Rightarrow> Periodic list \<Rightarrow> Periodic option" where
  "periodic_scan name [] = None"
| "periodic_scan name (job # jobs) =
     (if Periodic_Name job = name then Some job else periodic_scan name jobs)"

definition periodic_getProwJobSpec :: "Externals \<Rightarrow> jobHandler" where
  "periodic_getProwJobSpec ext cfg pe =
     (case periodic_scan (Name pe) (AllPeriodics cfg) of
        None \<Rightarrow> ((None, None, Some (PeriodicNotFound (Name pe))), [])
      | Some periodicJob \<Rightarrow>
          ((Some (PeriodicSpec ext periodicJob), Periodic_Labels periodicJob, None), []))"

subsection \<open>The presubmit handler\<close>

text \<open>
  The checks on \<^verbatim>\<open>Refs\<close> (lines 179 to 197), in the order of the source. The result is
  the error of the first check that fails.
\<close>

definition presubmit_checkRefs :: "Refs option \<Rightarrow> error + Refs" where
  "presubmit_checkRefs r =
     (case r of
        None \<Rightarrow> Inl (ErrorsNew ''Refs must be supplied'')
      | Some refs \<Rightarrow>
          if length (Org refs) = 0 then Inl (ErrorsNew ''org must be supplied'')
          else if length (Repo refs) = 0 then Inl (ErrorsNew ''repo must be supplied'')
          else if length (Pulls refs) = 0 then Inl (ErrorsNew ''at least 1 Pulls is required'')
          else if length (BaseSHA refs) = 0 then Inl (ErrorsNew ''baseSHA must be supplied'')
          else if length (BaseRef refs) = 0 then Inl (ErrorsNew ''baseRef must be supplied'')
          else Inr refs)"

text \<open>
  The candidate list (lines 200 to 221): the static presubmits of \<^verbatim>\<open>org/repo\<close>, replaced
  by those of \<^verbatim>\<open>GetPresubmits\<close> when a git client is set and the call returns no error.
\<close>

definition presubmit_candidates ::
  "ClientFactory option \<Rightarrow> prowCfgClient \<Rightarrow> Refs \<Rightarrow> Presubmit list \<times> (level \<times> string) list" where
  "presubmit_candidates GitClient cfg refs =
     (let orgRepo = Org refs @ ''/'' @ Repo refs;
          baseSHAGetter = (\<lambda>_. Inr (BaseSHA refs));
          headSHAGetters = map (\<lambda>pull. (\<lambda>_. Inr (SHA pull))) (Pulls refs);
          presubmits = GetPresubmitsStatic cfg orgRepo
      in case GitClient of
           None \<Rightarrow> (presubmits, [])
         | Some gc \<Rightarrow>
             (case GetPresubmits cfg gc orgRepo baseSHAGetter headSHAGetters of
                Inl err \<Rightarrow> (presubmits, [(DebugLevel, ''Failed to get presubmits'')])
              | Inr presubmitsWithInrepoconfig \<Rightarrow> (presubmitsWithInrepoconfig, [])))"

text \<open>
  The loop over the candidates (lines 223 to 234). The last argument is the variable
  \<^verbatim>\<open>presubmitJob\<close>; \<open>Inl\<close> is the early return from inside the loop.
\<close>

fun presubmit_scan ::
  "Externals \<Rightarrow> string \<Rightarrow> string \<Rightarrow> Presubmit list \<Rightarrow> Presubmit option \<Rightarrow> error + Presubmit option" where
  "presubmit_scan ext branch name [] presubmitJob = Inr presubmitJob"
| "presubmit_scan ext branch name (job # jobs) presubmitJob =
     (if \<not> Presubmit_CouldRun ext job branch then presubmit_scan ext branch name jobs presubmitJob
      else if Presubmit_Name job = name then
        (if presubmitJob \<noteq> None then Inl (MatchesMultiple name)
         else presubmit_scan ext branch name jobs (Some job))
      else presubmit_scan ext branch name jobs presubmitJob)"

definition presubmit_getProwJobSpec :: "Externals \<Rightarrow> ClientFactory option \<Rightarrow> jobHandler" where
  "presubmit_getProwJobSpec ext GitClient cfg pe =
     (case presubmit_checkRefs (Refs pe) of
        Inl err \<Rightarrow> ((None, None, Some err), [])
      | Inr refs \<Rightarrow>
          (case presubmit_candidates GitClient cfg refs of
             (presubmits, fx) \<Rightarrow>
               (case presubmit_scan ext (BaseRef refs) (Name pe) presubmits None of
                  Inl err \<Rightarrow> ((None, None, Some err), fx)
                | Inr None \<Rightarrow> ((None, None, Some (PresubmitNotFound (Name pe))), fx)
                | Inr (Some presubmitJob) \<Rightarrow>
                    ((Some (PresubmitSpec ext presubmitJob refs),
                      Presubmit_Labels presubmitJob, None), fx))))"

subsection \<open>The postsubmit handler\<close>

text \<open>Lines 250 to 265: as for presubmits, without the check on \<^verbatim>\<open>Pulls\<close>.\<close>

definition postsubmit_checkRefs :: "Refs option \<Rightarrow> error + Refs" where
  "postsubmit_checkRefs r =
     (case r of
        None \<Rightarrow> Inl (ErrorsNew ''refs must be supplied'')
      | Some refs \<Rightarrow>
          if length (Org refs) = 0 then Inl (ErrorsNew ''org must be supplied'')
          else if length (Repo refs) = 0 then Inl (ErrorsNew ''repo must be supplied'')
          else if length (BaseSHA refs) = 0 then Inl (ErrorsNew ''baseSHA must be supplied'')
          else if length (BaseRef refs) = 0 then Inl (ErrorsNew ''baseRef must be supplied'')
          else Inr refs)"

text \<open>Lines 268 to 282; \<^verbatim>\<open>GetPostsubmits\<close> is called with no head getters.\<close>

definition postsubmit_candidates ::
  "ClientFactory option \<Rightarrow> prowCfgClient \<Rightarrow> Refs \<Rightarrow> Postsubmit list \<times> (level \<times> string) list" where
  "postsubmit_candidates GitClient cfg refs =
     (let orgRepo = Org refs @ ''/'' @ Repo refs;
          baseSHAGetter = (\<lambda>_. Inr (BaseSHA refs));
          postsubmits = GetPostsubmitsStatic cfg orgRepo
      in case GitClient of
           None \<Rightarrow> (postsubmits, [])
         | Some gc \<Rightarrow>
             (case GetPostsubmits cfg gc orgRepo baseSHAGetter [] of
                Inl err \<Rightarrow>
                  (postsubmits, [(DebugLevel, ''Failed to get postsubmits from inrepoconfig'')])
              | Inr postsubmitsWithInrepoconfig \<Rightarrow> (postsubmitsWithInrepoconfig, [])))"

text \<open>Lines 284 to 295.\<close>

fun postsubmit_scan ::
  "Externals \<Rightarrow> string \<Rightarrow> string \<Rightarrow> Postsubmit list \<Rightarrow> Postsubmit option \<Rightarrow> error + Postsubmit option" where
  "postsubmit_scan ext branch name [] postsubmitJob = Inr postsubmitJob"
| "postsubmit_scan ext branch name (job # jobs) postsubmitJob =
     (if \<not> Postsubmit_CouldRun ext job branch then postsubmit_scan ext branch name jobs postsubmitJob
      else if Postsubmit_Name job = name then
        (if postsubmitJob \<noteq> None then Inl (MatchesMultiple name)
         else postsubmit_scan ext branch name jobs (Some job))
      else postsubmit_scan ext branch name jobs postsubmitJob)"

definition postsubmit_getProwJobSpec :: "Externals \<Rightarrow> ClientFactory option \<Rightarrow> jobHandler" where
  "postsubmit_getProwJobSpec ext GitClient cfg pe =
     (case postsubmit_checkRefs (Refs pe) of
        Inl err \<Rightarrow> ((None, None, Some err), [])
      | Inr refs \<Rightarrow>
          (case postsubmit_candidates GitClient cfg refs of
             (postsubmits, fx) \<Rightarrow>
               (case postsubmit_scan ext (BaseRef refs) (Name pe) postsubmits None of
                  Inl err \<Rightarrow> ((None, None, Some err), fx)
                | Inr None \<Rightarrow> ((None, None, Some (PostsubmitNotFound (Name pe))), fx)
                | Inr (Some postsubmitJob) \<Rightarrow>
                    ((Some (PostsubmitSpec ext postsubmitJob refs),
                      Postsubmit_Labels postsubmitJob, None), fx))))"

subsection \<open>The subscriber\<close>

definition prowEventType :: string where
  "prowEventType = ''prow.k8s.io/pubsub.EventType''"

definition periodicProwJobEvent :: string where
  "periodicProwJobEvent = ''prow.k8s.io/pubsub.PeriodicProwJobEvent''"

definition presubmitProwJobEvent :: string where
  "presubmitProwJobEvent = ''prow.k8s.io/pubsub.PresubmitProwJobEvent''"

definition postsubmitProwJobEvent :: string where
  "postsubmitProwJobEvent = ''prow.k8s.io/pubsub.PostsubmitProwJobEvent''"

text \<open>\<^verbatim>\<open>pubSubMessage\<close> behind \<^verbatim>\<open>messageInterface\<close>: the getters are the fields.\<close>

record pubSubMessage =
  Attributes :: "string \<rightharpoonup> string"
  Data :: string
  ID :: string

text \<open>
  \<^verbatim>\<open>Subscriber\<close>. \<open>Config\<close> is \<^verbatim>\<open>s.ConfigAgent.Config()\<close>, \<open>Create\<close> the one method
  of \<^verbatim>\<open>ProwJobClient\<close> (the source keeps its error only). The interface values are
  taken as set; \<^verbatim>\<open>GitClient\<close> is the one the source compares with \<^verbatim>\<open>nil\<close>.
\<close>

record Subscriber =
  Config :: prowCfgClient
  Create :: "ProwJob \<Rightarrow> error option"
  GitClient :: "ClientFactory option"
  Reporter :: reportClient

text \<open>
  \<^verbatim>\<open>Metrics\<close>: two Prometheus counter vectors with the subscription as their one label.
  A vector maps a label value to its child counter. \<open>With\<close> is
  \<^verbatim>\<open>CounterVec.With\<close>, which creates the child at zero when it is missing and changes
  no value; \<open>Inc\<close> is \<^verbatim>\<open>Counter.Inc\<close> on that child.
\<close>

record Metrics =
  MessageCounter :: "string \<rightharpoonup> nat"
  ErrorCounter :: "string \<rightharpoonup> nat"

definition With :: "(string \<rightharpoonup> nat) \<Rightarrow> string \<Rightarrow> (string \<rightharpoonup> nat)" where
  "With vec l = (case vec l of None \<Rightarrow> vec(l \<mapsto> 0) | Some n \<Rightarrow> vec)"

definition Inc :: "(string \<rightharpoonup> nat) \<Rightarrow> string \<Rightarrow> (string \<rightharpoonup> nat)" where
  "Inc vec l = (case vec l of None \<Rightarrow> vec | Some n \<Rightarrow> vec(l \<mapsto> Suc n))"

definition counter_value :: "(string \<rightharpoonup> nat) \<Rightarrow> string \<Rightarrow> nat" where
  "counter_value vec l = (case vec l of None \<Rightarrow> 0 | Some n \<Rightarrow> n)"

definition extractFromAttribute :: "(string \<rightharpoonup> string) \<Rightarrow> string \<Rightarrow> string \<times> error option" where
  "extractFromAttribute attrs key =
     (case attrs key of
        None \<Rightarrow> ([], Some (AttributeNotFound key))
      | Some v \<Rightarrow> (v, None))"

text \<open>
  The closure \<^verbatim>\<open>reportProwJob\<close> of \<^verbatim>\<open>handleProwJob\<close> (lines 354 to 365), with
  \<^verbatim>\<open>s.Reporter\<close> as its first argument. It returns nothing; its effects are the calls on
  the reporter and the warning. \<open>set_status\<close> is what lines 355 to 359 write into the
  ProwJob before the reporter sees it.
\<close>

definition set_status :: "ProwJob \<Rightarrow> ProwJobState \<Rightarrow> error option \<Rightarrow> ProwJob" where
  "set_status pj state err =
     (let pj1 = pj\<lparr>Status := (Status pj)
                  \<lparr>State := state, Description := Text ''Successfully triggered prowjob.''\<rparr>\<rparr>
      in case err of
           None \<Rightarrow> pj1
         | Some e \<Rightarrow> pj1\<lparr>Status := (Status pj1)\<lparr>Description := FailedCreatingProwjob e\<rparr>\<rparr>)"

definition reportProwJob ::
  "reportClient \<Rightarrow> ProwJob \<Rightarrow> ProwJobState \<Rightarrow> error option \<Rightarrow> effect list" where
  "reportProwJob r pj state err =
     (let pj' = set_status pj state err
      in Call_ShouldReport pj' #
         (if ShouldReport r pj'
          then Call_Report pj' #
               (case Report r pj' of
                  Some e \<Rightarrow> [Log WarnLevel ''Failed to report status.'']
                | None \<Rightarrow> [])
          else []))"

definition reportProwJobFailure :: "reportClient \<Rightarrow> ProwJob \<Rightarrow> error \<Rightarrow> effect list" where
  "reportProwJobFailure r pj err = reportProwJob r pj ErrorState (Some err)"

definition reportProwJobTriggered :: "reportClient \<Rightarrow> ProwJob \<Rightarrow> effect list" where
  "reportProwJobTriggered r pj = reportProwJob r pj TriggeredState None"

text \<open>Lines 389 to 395: the scan of the allow-list.\<close>

fun clusterIsAllowed :: "string list \<Rightarrow> string \<Rightarrow> bool" where
  "clusterIsAllowed [] cluster = False"
| "clusterIsAllowed (allowedCluster # rest) cluster =
     (if allowedCluster = ''*'' \<or> allowedCluster = cluster then True
      else clusterIsAllowed rest cluster)"

text \<open>Lines 408 to 410: \<^verbatim>\<open>labels[k] = v\<close> for the entries in the order they are visited.\<close>

fun set_labels :: "(string \<times> string) list \<Rightarrow> (string \<rightharpoonup> string) \<Rightarrow> (string \<rightharpoonup> string)" where
  "set_labels [] labels = labels"
| "set_labels ((k, v) # kvs) labels = set_labels kvs (labels(k \<mapsto> v))"

text \<open>Lines 417 to 419: the inner loop, one \<^verbatim>\<open>append\<close> per entry.\<close>

fun append_envs :: "(string \<times> string) list \<Rightarrow> EnvVar list \<Rightarrow> EnvVar list" where
  "append_envs [] env = env"
| "append_envs ((k, v) # kvs) env =
     append_envs kvs (env @ [\<lparr>EnvVar_Name = k, EnvVar_Value = v\<rparr>])"

text \<open>
  Lines 416 to 421: the outer loop over the containers, \<open>i\<close> the index of the first
  one of the list; \<open>visit i\<close> is the order the inner loop takes for container \<open>i\<close>.
\<close>

fun update_containers ::
  "(nat \<Rightarrow> (string \<times> string) list) \<Rightarrow> nat \<Rightarrow> Container list \<Rightarrow> Container list" where
  "update_containers visit i [] = []"
| "update_containers visit i (c # cs) =
     c\<lparr>Env := append_envs (visit i) (Env c)\<rparr> # update_containers visit (Suc i) cs"

text \<open>
  Lines 404 to 410. \<open>merged_labels\<close> is the contents of the map \<^verbatim>\<open>labels\<close> after the loop
  over the event's labels: the loop starts from a fresh map when the handler returned
  \<^verbatim>\<open>nil\<close>, else from the map the handler returned, and writes into it in place.
  \<open>store_after_labels\<close> is the store after the loop: the fresh map is referenced by
  nothing else, the map the handler returned has its new contents.
\<close>

definition merged_labels ::
  "Externals \<Rightarrow> store \<Rightarrow> ProwJobEvent \<Rightarrow> map_ref option \<Rightarrow> (string \<rightharpoonup> string)" where
  "merged_labels ext h pe labels =
     set_labels (range_map ext 0 (Labels pe))
       (case labels of None \<Rightarrow> Map.empty | Some r \<Rightarrow> h r)"

definition store_after_labels ::
  "Externals \<Rightarrow> store \<Rightarrow> ProwJobEvent \<Rightarrow> map_ref option \<Rightarrow> store" where
  "store_after_labels ext h pe labels =
     (case labels of
        None \<Rightarrow> h
      | Some r \<Rightarrow> h(r := merged_labels ext h pe labels))"

text \<open>Lines 412 to 422: the ProwJob that is handed to \<^verbatim>\<open>Create\<close>.\<close>

definition build_prowJob ::
  "Externals \<Rightarrow> store \<Rightarrow> ProwJobEvent \<Rightarrow> ProwJobSpec \<Rightarrow> map_ref option \<Rightarrow> ProwJob" where
  "build_prowJob ext h pe prowJobSpec labels =
     (let prowJob = NewProwJob ext prowJobSpec (Some (merged_labels ext h pe labels)) (Annotations pe)
      in case Spec_PodSpec (Spec prowJob) of
           None \<Rightarrow> prowJob
         | Some pod \<Rightarrow>
             prowJob\<lparr>Spec := (Spec prowJob)\<lparr>Spec_PodSpec := Some (pod\<lparr>Containers :=
               update_containers (\<lambda>i. range_map ext (Suc i) (Envs pe)) 0 (Containers pod)\<rparr>)\<rparr>\<rparr>)"

text \<open>
  \<^verbatim>\<open>handleProwJob\<close>: the error it returns, its effects, and the store as it leaves it.
  Only the admitted path writes to the store.
\<close>

definition handleProwJob ::
  "Externals \<Rightarrow> Subscriber \<Rightarrow> store \<Rightarrow> jobHandler \<Rightarrow> pubSubMessage \<Rightarrow> string \<Rightarrow> string list
     \<Rightarrow> error option \<times> effect list \<times> store" where
  "handleProwJob ext s h jh msg subscription allowedClusters =
     (case FromPayload ext (Data msg) of
        Inl err \<Rightarrow> (Some err, [], h)
      | Inr pe \<Rightarrow>
          (case jh (Config s) pe of
             ((prowJobSpec, labels, err), fx) \<Rightarrow>
               (let t = Call_getProwJobSpec pe # map (\<lambda>(l, m). Log l m) fx in
                case err of
                  Some e \<Rightarrow>
                    (Some e,
                     t @ [Log DebugLevel ''Failed getting prowjob spec''] @
                     reportProwJobFailure (Reporter s)
                       (NewProwJob ext emptyProwJobSpec None (Annotations pe)) e,
                     h)
                | None \<Rightarrow>
                    (case prowJobSpec of
                       None \<Rightarrow> (Some FailedGettingSpec, t, h)
                     | Some spec \<Rightarrow>
                         if \<not> clusterIsAllowed allowedClusters (Cluster spec) then
                           (let e = ClusterNotAllowed (Cluster spec) in
                            (Some e,
                             t @ [Log WarnLevel ''cluster not allowed''] @
                             reportProwJobFailure (Reporter s)
                               (NewProwJob ext spec None (Annotations pe)) e,
                             h))
                         else
                           (let prowJob = build_prowJob ext h pe spec labels;
                                h' = store_after_labels ext h pe labels in
                            case Create s prowJob of
                              Some e \<Rightarrow>
                                (Some e,
                                 t @ [Call_Create prowJob,
                                      Log ErrorLevel ''failed to create job %q as %q''] @
                                 reportProwJobFailure (Reporter s) prowJob e,
                                 h')
                            | None \<Rightarrow>
                                (None,
                                 t @ [Call_Create prowJob, Log InfoLevel ''Job created.''] @
                                 reportProwJobTriggered (Reporter s) prowJob,
                                 h'))))))"

text \<open>The \<^verbatim>\<open>switch\<close> of \<^verbatim>\<open>handleMessage\<close> (lines 325 to 337); \<open>None\<close> is its default.\<close>

definition select_jobHandler :: "Externals \<Rightarrow> Subscriber \<Rightarrow> string \<Rightarrow> jobHandler option" where
  "select_jobHandler ext s eType =
     (if eType = periodicProwJobEvent then Some (periodic_getProwJobSpec ext)
      else if eType = presubmitProwJobEvent then Some (presubmit_getProwJobSpec ext (GitClient s))
      else if eType = postsubmitProwJobEvent then Some (postsubmit_getProwJobSpec ext (GitClient s))
      else None)"

text \<open>
  \<^verbatim>\<open>handleMessage\<close>. The metrics and the store are the state: the function takes them and
  returns them as it leaves them. On its three error paths the source writes
  \<^verbatim>\<open>s.Metrics.ErrorCounter.With(...)\<close> and stops there.
\<close>

definition handleMessage ::
  "Externals \<Rightarrow> Subscriber \<Rightarrow> Metrics \<Rightarrow> store \<Rightarrow> pubSubMessage \<Rightarrow> string \<Rightarrow> string list
     \<Rightarrow> error option \<times> Metrics \<times> effect list \<times> store" where
  "handleMessage ext s metrics h msg subscription allowedClusters =
     (let m1 = metrics\<lparr>MessageCounter := Inc (With (MessageCounter metrics) subscription) subscription\<rparr>;
          t1 = [Log InfoLevel ''Received message'']
      in case extractFromAttribute (Attributes msg) prowEventType of
           (eType, Some err) \<Rightarrow>
             (Some err,
              m1\<lparr>ErrorCounter := With (ErrorCounter m1) subscription\<rparr>,
              t1 @ [Log ErrorLevel ''failed to read message''],
              h)
         | (eType, None) \<Rightarrow>
             (case select_jobHandler ext s eType of
                None \<Rightarrow>
                  (Some (UnsupportedEventType eType),
                   m1\<lparr>ErrorCounter := With (ErrorCounter m1) subscription\<rparr>,
                   t1 @ [Log DebugLevel ''Unsupported event type''],
                   h)
              | Some jh \<Rightarrow>
                  (case handleProwJob ext s h jh msg subscription allowedClusters of
                     (Some err, fx, h') \<Rightarrow>
                       (Some err,
                        m1\<lparr>ErrorCounter := With (ErrorCounter m1) subscription\<rparr>,
                        t1 @ fx @ [Log DebugLevel ''failed to create Prow Job''],
                        h')
                   | (None, fx, h') \<Rightarrow> (None, m1, t1 @ fx, h'))))"

subsection \<open>Example values\<close>

text \<open>
  Concrete collaborators, jobs and events, on which the theorems below are instantiated.
\<close>

definition ex_refs :: Refs where
  "ex_refs = \<lparr>Org = ''o'', Repo = ''r'', BaseRef = ''main'', BaseSHA = ''abc'', Pulls = [\<lparr>SHA = ''def''\<rparr>]\<rparr>"

definition ex_event :: ProwJobEvent where
  "ex_event = \<lparr>Name = ''hans'', Refs = Some ex_refs, Envs = [''k'' \<mapsto> ''v''],
     Labels = [''k'' \<mapsto> ''v''], Annotations = Map.empty\<rparr>"

definition ex_ext :: Externals where
  "ex_ext =
     \<lparr>Presubmit_CouldRun = (\<lambda>job branch. branch \<in> set (Presubmit_Branches job)),
      Postsubmit_CouldRun = (\<lambda>job branch. branch \<in> set (Postsubmit_Branches job)),
      PeriodicSpec = (\<lambda>job. \<lparr>Type = ''periodic'', Job = Periodic_Name job, Spec_Refs = None,
         Cluster = Periodic_Cluster job, Spec_PodSpec = Periodic_Spec job\<rparr>),
      PresubmitSpec = (\<lambda>job refs. \<lparr>Type = ''presubmit'', Job = Presubmit_Name job,
         Spec_Refs = Some refs, Cluster = Presubmit_Cluster job, Spec_PodSpec = Presubmit_Spec job\<rparr>),
      PostsubmitSpec = (\<lambda>job refs. \<lparr>Type = ''postsubmit'', Job = Postsubmit_Name job,
         Spec_Refs = Some refs, Cluster = Postsubmit_Cluster job, Spec_PodSpec = Postsubmit_Spec job\<rparr>),
      NewProwJob = (\<lambda>spec labels annotations.
         \<lparr>ProwJob_Name = ''generated'',
          ProwJob_Labels = (case labels of None \<Rightarrow> Map.empty | Some l \<Rightarrow> l),
          ProwJob_Annotations = annotations, Spec = spec,
          Status = \<lparr>State = TriggeredState, Description = Text []\<rparr>\<rparr>),
      FromPayload = (\<lambda>data.
         if data = ''payload of hans'' then Inr ex_event
         else if data = ''payload of hans, no labels'' then Inr (ex_event\<lparr>Labels := Map.empty\<rparr>)
         else Inl (External ''unexpected end of JSON input'')),
      range_map = (\<lambda>n m. case m ''k'' of None \<Rightarrow> [] | Some v \<Rightarrow> [(''k'', v)])\<rparr>"

definition ex_presubmit :: "string \<Rightarrow> string \<Rightarrow> Presubmit" where
  "ex_presubmit name branch = \<lparr>Presubmit_Name = name, Presubmit_Labels = None,
     Presubmit_Branches = [branch], Presubmit_Cluster = ''default'', Presubmit_Spec = None\<rparr>"

definition ex_postsubmit :: "string \<Rightarrow> string \<Rightarrow> Postsubmit" where
  "ex_postsubmit name branch = \<lparr>Postsubmit_Name = name, Postsubmit_Labels = None,
     Postsubmit_Branches = [branch], Postsubmit_Cluster = ''default'', Postsubmit_Spec = None\<rparr>"

definition ex_periodic :: "string \<Rightarrow> Periodic" where
  "ex_periodic name = \<lparr>Periodic_Name = name, Periodic_Labels = Some 0,
     Periodic_Cluster = ''default'',
     Periodic_Spec = Some \<lparr>Containers =
       [\<lparr>Container_Name = ''test'', Env = [\<lparr>EnvVar_Name = ''k'', EnvVar_Value = ''old''\<rparr>]\<rparr>]\<rparr>\<rparr>"

text \<open>The store as the configuration is loaded: map 0 holds the labels that the
  periodic jobs declare.\<close>

definition ex_store :: store where
  "ex_store = (\<lambda>r. Map.empty)(0 := [''k'' \<mapsto> ''job''])"

definition ex_cfg :: "Periodic list \<Rightarrow> Presubmit list \<Rightarrow> Postsubmit list \<Rightarrow> prowCfgClient" where
  "ex_cfg periodics presubmits postsubmits =
     \<lparr>AllPeriodics = periodics,
      GetPresubmits = (\<lambda>gc identifier baseSHAGetter headSHAGetters. Inl (External ''fetch failed'')),
      GetPresubmitsStatic = (\<lambda>identifier. if identifier = ''o/r'' then presubmits else []),
      GetPostsubmits = (\<lambda>gc identifier baseSHAGetter headSHAGetters. Inl (External ''fetch failed'')),
      GetPostsubmitsStatic = (\<lambda>identifier. if identifier = ''o/r'' then postsubmits else [])\<rparr>"

definition ex_cfg_inrepo :: prowCfgClient where
  "ex_cfg_inrepo =
     \<lparr>AllPeriodics = [],
      GetPresubmits = (\<lambda>gc identifier baseSHAGetter headSHAGetters.
         Inr [ex_presubmit ''hans'' ''main'']),
      GetPresubmitsStatic = (\<lambda>identifier. [ex_presubmit ''kurt'' ''main'']),
      GetPostsubmits = (\<lambda>gc identifier baseSHAGetter headSHAGetters.
         Inr [ex_postsubmit ''hans'' ''main'']),
      GetPostsubmitsStatic = (\<lambda>identifier. [])\<rparr>"

definition ex_subscriber :: Subscriber where
  "ex_subscriber =
     \<lparr>Config = ex_cfg [ex_periodic ''hans''] [] [],
      Create = (\<lambda>pj. None),
      GitClient = None,
      Reporter = \<lparr>ShouldReport = (\<lambda>pj. True), Report = (\<lambda>pj. None)\<rparr>\<rparr>"

definition ex_message :: "(string \<rightharpoonup> string) \<Rightarrow> pubSubMessage" where
  "ex_message attrs = \<lparr>Attributes = attrs, Data = ''payload of hans'', ID = ''1''\<rparr>"

definition ex_message_no_labels :: pubSubMessage where
  "ex_message_no_labels =
     \<lparr>Attributes = [prowEventType \<mapsto> periodicProwJobEvent],
      Data = ''payload of hans, no labels'', ID = ''2''\<rparr>"

text \<open>
  Two messages for the periodic job \<open>hans\<close>, one after the other: the first carries the
  label \<open>k = v\<close>, the second carries no labels and is handled with the metrics and the
  store that the first one left.
\<close>

definition ex_first_dispatch :: "error option \<times> Metrics \<times> effect list \<times> store" where
  "ex_first_dispatch =
     handleMessage ex_ext ex_subscriber \<lparr>MessageCounter = Map.empty, ErrorCounter = Map.empty\<rparr>
       ex_store (ex_message [prowEventType \<mapsto> periodicProwJobEvent]) ''sub'' [''*'']"

definition ex_second_dispatch :: "error option \<times> Metrics \<times> effect list \<times> store" where
  "ex_second_dispatch =
     handleMessage ex_ext ex_subscriber (fst (snd ex_first_dispatch))
       (snd (snd (snd ex_first_dispatch))) ex_message_no_labels ''sub'' [''*'']"

section \<open>Properties\<close>

subsection \<open>The scans and the checks\<close>

lemma periodic_scan_find:
  "periodic_scan name jobs = List.find (\<lambda>job. Periodic_Name job = name) jobs"
  by (induction jobs) simp_all

lemma presubmit_scan_Some:
  "presubmit_scan ext branch name jobs (Some a) =
     (if filter (\<lambda>job. Presubmit_Name job = name)
           (filter (\<lambda>job. Presubmit_CouldRun ext job branch) jobs) = []
      then Inr (Some a) else Inl (MatchesMultiple name))"
  by (induction jobs) simp_all

lemma presubmit_scan_None:
  "presubmit_scan ext branch name jobs None =
     (case filter (\<lambda>job. Presubmit_Name job = name)
             (filter (\<lambda>job. Presubmit_CouldRun ext job branch) jobs) of
        [] \<Rightarrow> Inr None
      | [job] \<Rightarrow> Inr (Some job)
      | _ \<Rightarrow> Inl (MatchesMultiple name))"
  by (induction jobs) (simp_all add: presubmit_scan_Some split: list.splits)

lemma postsubmit_scan_Some:
  "postsubmit_scan ext branch name jobs (Some a) =
     (if filter (\<lambda>job. Postsubmit_Name job = name)
           (filter (\<lambda>job. Postsubmit_CouldRun ext job branch) jobs) = []
      then Inr (Some a) else Inl (MatchesMultiple name))"
  by (induction jobs) simp_all

lemma postsubmit_scan_None:
  "postsubmit_scan ext branch name jobs None =
     (case filter (\<lambda>job. Postsubmit_Name job = name)
             (filter (\<lambda>job. Postsubmit_CouldRun ext job branch) jobs) of
        [] \<Rightarrow> Inr None
      | [job] \<Rightarrow> Inr (Some job)
      | _ \<Rightarrow> Inl (MatchesMultiple name))"
  by (induction jobs) (simp_all add: postsubmit_scan_Some split: list.splits)

lemma presubmit_checkRefs_valid:
  "r = Some refs \<Longrightarrow> Org refs \<noteq> [] \<Longrightarrow> Repo refs \<noteq> [] \<Longrightarrow> Pulls refs \<noteq> [] \<Longrightarrow>
   BaseSHA refs \<noteq> [] \<Longrightarrow> BaseRef refs \<noteq> [] \<Longrightarrow> presubmit_checkRefs r = Inr refs"
  by (simp add: presubmit_checkRefs_def)

lemma postsubmit_checkRefs_valid:
  "r = Some refs \<Longrightarrow> Org refs \<noteq> [] \<Longrightarrow> Repo refs \<noteq> [] \<Longrightarrow>
   BaseSHA refs \<noteq> [] \<Longrightarrow> BaseRef refs \<noteq> [] \<Longrightarrow> postsubmit_checkRefs r = Inr refs"
  by (simp add: postsubmit_checkRefs_def)

subsection \<open>Resolution of a job spec\<close>

text \<open>
  Claim C1. For a presubmit or postsubmit event whose refs pass the checks, the handler
  keeps the candidates that could run on the base branch of the event, and among them
  those of the event's name: none gives the not-found error with the name, exactly one
  gives the spec built from that job together with the job's labels, two or more give the
  error that the name matches multiple jobs.
\<close>

theorem resolution_by_branch_and_name:
  assumes "Refs pe = Some refs" "Org refs \<noteq> []" "Repo refs \<noteq> []" "BaseSHA refs \<noteq> []"
    "BaseRef refs \<noteq> []"
  shows "(Pulls refs \<noteq> [] \<longrightarrow>
      fst (presubmit_getProwJobSpec ext gc cfg pe) =
        (case filter (\<lambda>job. Presubmit_Name job = Name pe)
                (filter (\<lambda>job. Presubmit_CouldRun ext job (BaseRef refs))
                   (fst (presubmit_candidates gc cfg refs))) of
           [] \<Rightarrow> (None, None, Some (PresubmitNotFound (Name pe)))
         | [job] \<Rightarrow> (Some (PresubmitSpec ext job refs), Presubmit_Labels job, None)
         | _ \<Rightarrow> (None, None, Some (MatchesMultiple (Name pe))))) \<and>
    fst (postsubmit_getProwJobSpec ext gc cfg pe) =
        (case filter (\<lambda>job. Postsubmit_Name job = Name pe)
                (filter (\<lambda>job. Postsubmit_CouldRun ext job (BaseRef refs))
                   (fst (postsubmit_candidates gc cfg refs))) of
           [] \<Rightarrow> (None, None, Some (PostsubmitNotFound (Name pe)))
         | [job] \<Rightarrow> (Some (PostsubmitSpec ext job refs), Postsubmit_Labels job, None)
         | _ \<Rightarrow> (None, None, Some (MatchesMultiple (Name pe))))"
proof (intro conjI impI)
  assume "Pulls refs \<noteq> []"
  with assms have "presubmit_checkRefs (Refs pe) = Inr refs"
    by (simp add: presubmit_checkRefs_valid)
  then show "fst (presubmit_getProwJobSpec ext gc cfg pe) =
        (case filter (\<lambda>job. Presubmit_Name job = Name pe)
                (filter (\<lambda>job. Presubmit_CouldRun ext job (BaseRef refs))
                   (fst (presubmit_candidates gc cfg refs))) of
           [] \<Rightarrow> (None, None, Some (PresubmitNotFound (Name pe)))
         | [job] \<Rightarrow> (Some (PresubmitSpec ext job refs), Presubmit_Labels job, None)
         | _ \<Rightarrow> (None, None, Some (MatchesMultiple (Name pe))))"
    by (simp add: presubmit_getProwJobSpec_def presubmit_scan_None
        split: prod.splits list.splits)
next
  from assms have "postsubmit_checkRefs (Refs pe) = Inr refs"
    by (simp add: postsubmit_checkRefs_valid)
  then show "fst (postsubmit_getProwJobSpec ext gc cfg pe) =
        (case filter (\<lambda>job. Postsubmit_Name job = Name pe)
                (filter (\<lambda>job. Postsubmit_CouldRun ext job (BaseRef refs))
                   (fst (postsubmit_candidates gc cfg refs))) of
           [] \<Rightarrow> (None, None, Some (PostsubmitNotFound (Name pe)))
         | [job] \<Rightarrow> (Some (PostsubmitSpec ext job refs), Postsubmit_Labels job, None)
         | _ \<Rightarrow> (None, None, Some (MatchesMultiple (Name pe))))"
    by (simp add: postsubmit_getProwJobSpec_def postsubmit_scan_None
        split: prod.splits list.splits)
qed

theorem resolution_by_branch_and_name_witness:
  "Refs ex_event = Some ex_refs \<and> Org ex_refs \<noteq> [] \<and> Repo ex_refs \<noteq> [] \<and>
   BaseSHA ex_refs \<noteq> [] \<and> BaseRef ex_refs \<noteq> [] \<and> Pulls ex_refs \<noteq> [] \<and>
   fst (presubmit_getProwJobSpec ex_ext None
          (ex_cfg [] [ex_presubmit ''kurt'' ''main'', ex_presubmit ''hans'' ''release'',
                      ex_presubmit ''hans'' ''main''] []) ex_event) =
     (Some (PresubmitSpec ex_ext (ex_presubmit ''hans'' ''main'') ex_refs), None, None) \<and>
   fst (postsubmit_getProwJobSpec ex_ext None
          (ex_cfg [] [ex_presubmit ''kurt'' ''main'', ex_presubmit ''hans'' ''release'',
                      ex_presubmit ''hans'' ''main''] []) ex_event) =
     (None, None, Some (PostsubmitNotFound ''hans'')) \<and>
   fst (presubmit_getProwJobSpec ex_ext None
          (ex_cfg [] [ex_presubmit ''hans'' ''main'', ex_presubmit ''hans'' ''main'']
             [ex_postsubmit ''hans'' ''main'']) ex_event) =
     (None, None, Some (MatchesMultiple ''hans'')) \<and>
   fst (postsubmit_getProwJobSpec ex_ext None
          (ex_cfg [] [ex_presubmit ''hans'' ''main'', ex_presubmit ''hans'' ''main'']
             [ex_postsubmit ''hans'' ''main'']) ex_event) =
     (Some (PostsubmitSpec ex_ext (ex_postsubmit ''hans'' ''main'') ex_refs), None, None) \<and>
   fst (presubmit_getProwJobSpec ex_ext None (ex_cfg [] [] []) ex_event) =
     (None, None, Some (PresubmitNotFound ''hans''))"
  using resolution_by_branch_and_name [of ex_event ex_refs ex_ext None
      "ex_cfg [] [ex_presubmit ''kurt'' ''main'', ex_presubmit ''hans'' ''release'',
                  ex_presubmit ''hans'' ''main''] []"]
    resolution_by_branch_and_name [of ex_event ex_refs ex_ext None
      "ex_cfg [] [ex_presubmit ''hans'' ''main'', ex_presubmit ''hans'' ''main'']
         [ex_postsubmit ''hans'' ''main'']"]
    resolution_by_branch_and_name [of ex_event ex_refs ex_ext None "ex_cfg [] [] []"]
  by (simp add: ex_event_def ex_refs_def ex_ext_def ex_cfg_def ex_presubmit_def
      ex_postsubmit_def presubmit_candidates_def postsubmit_candidates_def)

text \<open>
  Claim C5. With a git client set: when the dynamic getter fails, the candidates are the
  static ones and the handler returns what it returns without a git client, not the fetch
  error; when the dynamic getter succeeds, its jobs are the candidates and the static ones
  play no part. For presubmits and for postsubmits.
\<close>

theorem dynamic_fetch_fallback:
  "(GetPresubmits cfg gc (Org refs @ ''/'' @ Repo refs) (\<lambda>_. Inr (BaseSHA refs))
        (map (\<lambda>pull _. Inr (SHA pull)) (Pulls refs)) = Inl err \<longrightarrow>
      fst (presubmit_candidates (Some gc) cfg refs) =
        GetPresubmitsStatic cfg (Org refs @ ''/'' @ Repo refs) \<and>
      (Refs pe = Some refs \<longrightarrow>
         fst (presubmit_getProwJobSpec ext (Some gc) cfg pe) =
         fst (presubmit_getProwJobSpec ext None cfg pe))) \<and>
   (GetPresubmits cfg gc (Org refs @ ''/'' @ Repo refs) (\<lambda>_. Inr (BaseSHA refs))
        (map (\<lambda>pull _. Inr (SHA pull)) (Pulls refs)) = Inr dyn \<longrightarrow>
      presubmit_candidates (Some gc) cfg refs = (dyn, []) \<and>
      (Refs pe = Some refs \<longrightarrow>
         presubmit_getProwJobSpec ext (Some gc) cfg pe =
         presubmit_getProwJobSpec ext None (cfg\<lparr>GetPresubmitsStatic := \<lambda>_. dyn\<rparr>) pe)) \<and>
   (GetPostsubmits cfg gc (Org refs @ ''/'' @ Repo refs) (\<lambda>_. Inr (BaseSHA refs)) [] = Inl err \<longrightarrow>
      fst (postsubmit_candidates (Some gc) cfg refs) =
        GetPostsubmitsStatic cfg (Org refs @ ''/'' @ Repo refs) \<and>
      (Refs pe = Some refs \<longrightarrow>
         fst (postsubmit_getProwJobSpec ext (Some gc) cfg pe) =
         fst (postsubmit_getProwJobSpec ext None cfg pe))) \<and>
   (GetPostsubmits cfg gc (Org refs @ ''/'' @ Repo refs) (\<lambda>_. Inr (BaseSHA refs)) [] = Inr dyn' \<longrightarrow>
      postsubmit_candidates (Some gc) cfg refs = (dyn', []) \<and>
      (Refs pe = Some refs \<longrightarrow>
         postsubmit_getProwJobSpec ext (Some gc) cfg pe =
         postsubmit_getProwJobSpec ext None (cfg\<lparr>GetPostsubmitsStatic := \<lambda>_. dyn'\<rparr>) pe))"
  by (simp add: presubmit_getProwJobSpec_def postsubmit_getProwJobSpec_def
      presubmit_candidates_def postsubmit_candidates_def presubmit_checkRefs_def
      postsubmit_checkRefs_def split: sum.splits option.splits)

theorem dynamic_fetch_fallback_witness:
  "GetPresubmits (ex_cfg [] [ex_presubmit ''hans'' ''main''] [ex_postsubmit ''hans'' ''main''])
       (ClientFactory 0) (Org ex_refs @ ''/'' @ Repo ex_refs) (\<lambda>_. Inr (BaseSHA ex_refs))
       (map (\<lambda>pull _. Inr (SHA pull)) (Pulls ex_refs)) = Inl (External ''fetch failed'') \<and>
   GetPostsubmits (ex_cfg [] [ex_presubmit ''hans'' ''main''] [ex_postsubmit ''hans'' ''main''])
       (ClientFactory 0) (Org ex_refs @ ''/'' @ Repo ex_refs) (\<lambda>_. Inr (BaseSHA ex_refs)) [] =
     Inl (External ''fetch failed'') \<and>
   Refs ex_event = Some ex_refs \<and>
   fst (presubmit_getProwJobSpec ex_ext (Some (ClientFactory 0))
          (ex_cfg [] [ex_presubmit ''hans'' ''main''] [ex_postsubmit ''hans'' ''main''])
          ex_event) =
     (Some (PresubmitSpec ex_ext (ex_presubmit ''hans'' ''main'') ex_refs), None, None) \<and>
   fst (postsubmit_getProwJobSpec ex_ext (Some (ClientFactory 0))
          (ex_cfg [] [ex_presubmit ''hans'' ''main''] [ex_postsubmit ''hans'' ''main''])
          ex_event) =
     (Some (PostsubmitSpec ex_ext (ex_postsubmit ''hans'' ''main'') ex_refs), None, None) \<and>
   GetPresubmits ex_cfg_inrepo (ClientFactory 0) (Org ex_refs @ ''/'' @ Repo ex_refs)
       (\<lambda>_. Inr (BaseSHA ex_refs)) (map (\<lambda>pull _. Inr (SHA pull)) (Pulls ex_refs)) =
     Inr [ex_presubmit ''hans'' ''main''] \<and>
   GetPostsubmits ex_cfg_inrepo (ClientFactory 0) (Org ex_refs @ ''/'' @ Repo ex_refs)
       (\<lambda>_. Inr (BaseSHA ex_refs)) [] =
     Inr [ex_postsubmit ''hans'' ''main''] \<and>
   presubmit_getProwJobSpec ex_ext (Some (ClientFactory 0)) ex_cfg_inrepo ex_event =
     ((Some (PresubmitSpec ex_ext (ex_presubmit ''hans'' ''main'') ex_refs), None, None), []) \<and>
   postsubmit_getProwJobSpec ex_ext (Some (ClientFactory 0)) ex_cfg_inrepo ex_event =
     ((Some (PostsubmitSpec ex_ext (ex_postsubmit ''hans'' ''main'') ex_refs), None, None), [])"
  using dynamic_fetch_fallback [of
      "ex_cfg [] [ex_presubmit ''hans'' ''main''] [ex_postsubmit ''hans'' ''main'']"
      "ClientFactory 0" ex_refs "External ''fetch failed''" ex_event ex_ext]
    dynamic_fetch_fallback [of ex_cfg_inrepo "ClientFactory 0" ex_refs _ ex_event ex_ext
      "[ex_presubmit ''hans'' ''main'']" "[ex_postsubmit ''hans'' ''main'']"]
  by (simp add: ex_event_def ex_refs_def ex_ext_def ex_cfg_def ex_cfg_inrepo_def
      ex_presubmit_def ex_postsubmit_def
      presubmit_getProwJobSpec_def postsubmit_getProwJobSpec_def
      presubmit_candidates_def postsubmit_candidates_def presubmit_checkRefs_def
      postsubmit_checkRefs_def)

text \<open>
  Claim C6. The presubmit handler returns an error and no spec when refs is missing, or
  org, repo, baseSHA or baseRef is empty, or there is no pull; the postsubmit handler
  does so for refs, org, repo, baseSHA and baseRef, and none of its checks concerns the
  pulls: with those five in place it never returns one of the check errors.
\<close>

theorem refs_are_required:
  "((Refs pe = None \<or>
     (\<exists>refs. Refs pe = Some refs \<and>
        (Org refs = [] \<or> Repo refs = [] \<or> BaseSHA refs = [] \<or> BaseRef refs = [] \<or>
         Pulls refs = []))) \<longrightarrow>
      (\<exists>m. presubmit_getProwJobSpec ext gc cfg pe = ((None, None, Some (ErrorsNew m)), []))) \<and>
   ((Refs pe = None \<or>
     (\<exists>refs. Refs pe = Some refs \<and>
        (Org refs = [] \<or> Repo refs = [] \<or> BaseSHA refs = [] \<or> BaseRef refs = []))) \<longrightarrow>
      (\<exists>m. postsubmit_getProwJobSpec ext gc cfg pe = ((None, None, Some (ErrorsNew m)), []))) \<and>
   ((\<exists>refs. Refs pe = Some refs \<and> Org refs \<noteq> [] \<and> Repo refs \<noteq> [] \<and> BaseSHA refs \<noteq> [] \<and>
        BaseRef refs \<noteq> []) \<longrightarrow>
      (\<forall>m. snd (snd (fst (postsubmit_getProwJobSpec ext gc cfg pe))) \<noteq> Some (ErrorsNew m)))"
proof (intro conjI impI)
  assume "Refs pe = None \<or>
     (\<exists>refs. Refs pe = Some refs \<and>
        (Org refs = [] \<or> Repo refs = [] \<or> BaseSHA refs = [] \<or> BaseRef refs = [] \<or>
         Pulls refs = []))"
  then have "\<exists>m. presubmit_checkRefs (Refs pe) = Inl (ErrorsNew m)"
    by (auto simp: presubmit_checkRefs_def)
  then show "\<exists>m. presubmit_getProwJobSpec ext gc cfg pe = ((None, None, Some (ErrorsNew m)), [])"
    by (auto simp: presubmit_getProwJobSpec_def)
next
  assume "Refs pe = None \<or>
     (\<exists>refs. Refs pe = Some refs \<and>
        (Org refs = [] \<or> Repo refs = [] \<or> BaseSHA refs = [] \<or> BaseRef refs = []))"
  then have "\<exists>m. postsubmit_checkRefs (Refs pe) = Inl (ErrorsNew m)"
    by (auto simp: postsubmit_checkRefs_def)
  then show "\<exists>m. postsubmit_getProwJobSpec ext gc cfg pe = ((None, None, Some (ErrorsNew m)), [])"
    by (auto simp: postsubmit_getProwJobSpec_def)
next
  assume "\<exists>refs. Refs pe = Some refs \<and> Org refs \<noteq> [] \<and> Repo refs \<noteq> [] \<and> BaseSHA refs \<noteq> [] \<and>
        BaseRef refs \<noteq> []"
  then obtain refs where "postsubmit_checkRefs (Refs pe) = Inr refs"
    by (auto simp: postsubmit_checkRefs_valid)
  then show "\<forall>m. snd (snd (fst (postsubmit_getProwJobSpec ext gc cfg pe))) \<noteq> Some (ErrorsNew m)"
    by (simp add: postsubmit_getProwJobSpec_def postsubmit_scan_None
        split: prod.splits list.splits)
qed

theorem refs_are_required_witness:
  "Refs (ex_event\<lparr>Refs := None\<rparr>) = None \<and>
   (\<exists>m. presubmit_getProwJobSpec ex_ext None (ex_cfg [] [] []) (ex_event\<lparr>Refs := None\<rparr>) =
      ((None, None, Some (ErrorsNew m)), [])) \<and>
   (\<exists>m. postsubmit_getProwJobSpec ex_ext None (ex_cfg [] [] []) (ex_event\<lparr>Refs := None\<rparr>) =
      ((None, None, Some (ErrorsNew m)), [])) \<and>
   Refs (ex_event\<lparr>Refs := Some (ex_refs\<lparr>Pulls := []\<rparr>)\<rparr>) = Some (ex_refs\<lparr>Pulls := []\<rparr>) \<and>
   Pulls (ex_refs\<lparr>Pulls := []\<rparr>) = [] \<and> Org (ex_refs\<lparr>Pulls := []\<rparr>) \<noteq> [] \<and>
   Repo (ex_refs\<lparr>Pulls := []\<rparr>) \<noteq> [] \<and> BaseSHA (ex_refs\<lparr>Pulls := []\<rparr>) \<noteq> [] \<and>
   BaseRef (ex_refs\<lparr>Pulls := []\<rparr>) \<noteq> [] \<and>
   (\<exists>m. presubmit_getProwJobSpec ex_ext None (ex_cfg [] [] [])
           (ex_event\<lparr>Refs := Some (ex_refs\<lparr>Pulls := []\<rparr>)\<rparr>) =
      ((None, None, Some (ErrorsNew m)), [])) \<and>
   (\<forall>m. snd (snd (fst (postsubmit_getProwJobSpec ex_ext None (ex_cfg [] [] [])
           (ex_event\<lparr>Refs := Some (ex_refs\<lparr>Pulls := []\<rparr>)\<rparr>)))) \<noteq> Some (ErrorsNew m))"
  using refs_are_required [of "ex_event\<lparr>Refs := None\<rparr>" ex_ext None "ex_cfg [] [] []"]
    refs_are_required [of "ex_event\<lparr>Refs := Some (ex_refs\<lparr>Pulls := []\<rparr>)\<rparr>" ex_ext None
      "ex_cfg [] [] []"]
  by (simp add: ex_event_def ex_refs_def)

text \<open>
  Claim C9. The periodic handler returns the first job of the event's name in the list of
  all periodics, by equality of names alone; when the list has no job of that name the
  result is the not-found error with the name, and nothing else.
\<close>

theorem periodic_resolution:
  "periodic_getProwJobSpec ext cfg pe =
     (case List.find (\<lambda>job. Periodic_Name job = Name pe) (AllPeriodics cfg) of
        None \<Rightarrow> ((None, None, Some (PeriodicNotFound (Name pe))), [])
      | Some job \<Rightarrow> ((Some (PeriodicSpec ext job), Periodic_Labels job, None), [])) \<and>
   (Name pe \<notin> Periodic_Name ` set (AllPeriodics cfg) \<longrightarrow>
      periodic_getProwJobSpec ext cfg pe = ((None, None, Some (PeriodicNotFound (Name pe))), []))"
proof (intro conjI impI)
  show "periodic_getProwJobSpec ext cfg pe =
     (case List.find (\<lambda>job. Periodic_Name job = Name pe) (AllPeriodics cfg) of
        None \<Rightarrow> ((None, None, Some (PeriodicNotFound (Name pe))), [])
      | Some job \<Rightarrow> ((Some (PeriodicSpec ext job), Periodic_Labels job, None), []))"
    by (simp add: periodic_getProwJobSpec_def periodic_scan_find)
next
  assume "Name pe \<notin> Periodic_Name ` set (AllPeriodics cfg)"
  then have "List.find (\<lambda>job. Periodic_Name job = Name pe) (AllPeriodics cfg) = None"
    by (auto simp: find_None_iff image_iff)
  then show "periodic_getProwJobSpec ext cfg pe =
      ((None, None, Some (PeriodicNotFound (Name pe))), [])"
    by (simp add: periodic_getProwJobSpec_def periodic_scan_find)
qed

theorem periodic_resolution_witness:
  "Name ex_event \<notin> Periodic_Name ` set (AllPeriodics (ex_cfg [ex_periodic ''kurt''] [] [])) \<and>
   periodic_getProwJobSpec ex_ext (ex_cfg [ex_periodic ''kurt''] [] []) ex_event =
     ((None, None, Some (PeriodicNotFound ''hans'')), [])"
  using periodic_resolution [of ex_ext "ex_cfg [ex_periodic ''kurt''] [] []" ex_event]
  by (simp add: ex_event_def ex_cfg_def ex_periodic_def)

subsection \<open>Admission and dispatch\<close>

lemma clusterIsAllowed_iff:
  "clusterIsAllowed allowedClusters cluster \<longleftrightarrow>
     ''*'' \<in> set allowedClusters \<or> cluster \<in> set allowedClusters"
  by (induction allowedClusters) auto

lemma set_labels_map_add:
  "distinct (map fst kvs) \<Longrightarrow> set_labels kvs labels = labels ++ map_of kvs"
proof (induction kvs arbitrary: labels)
  case Nil
  then show ?case by simp
next
  case (Cons kv kvs)
  obtain k v where kv: "kv = (k, v)" by (cases kv)
  from Cons.prems kv have fresh: "k \<notin> dom (map_of kvs)"
    by (simp add: dom_map_of_conv_image_fst)
  from Cons.prems have "distinct (map fst kvs)" by simp
  then have IH: "set_labels kvs (labels(k \<mapsto> v)) = labels(k \<mapsto> v) ++ map_of kvs"
    by (rule Cons.IH)
  have "set_labels (kv # kvs) labels = set_labels kvs (labels(k \<mapsto> v))"
    unfolding kv by simp
  also note IH
  also from fresh have "labels(k \<mapsto> v) ++ map_of kvs = (labels ++ map_of kvs)(k \<mapsto> v)"
    by (rule map_add_upd_left)
  also have "\<dots> = labels ++ (map_of kvs)(k \<mapsto> v)"
    by (rule map_add_upd [symmetric])
  also have "(map_of kvs)(k \<mapsto> v) = map_of (kv # kvs)"
    unfolding kv by simp
  finally show ?case .
qed

lemma append_envs_eq:
  "append_envs kvs env = env @ map (\<lambda>(k, v). \<lparr>EnvVar_Name = k, EnvVar_Value = v\<rparr>) kvs"
  by (induction kvs arbitrary: env) auto

lemma length_update_containers [simp]:
  "length (update_containers visit n cs) = length cs"
  by (induction cs arbitrary: n) simp_all

lemma nth_update_containers:
  "i < length cs \<Longrightarrow>
   update_containers visit n cs ! i = (cs ! i)\<lparr>Env := append_envs (visit (n + i)) (Env (cs ! i))\<rparr>"
proof (induction cs arbitrary: n i)
  case Nil
  then show ?case by simp
next
  case (Cons c cs)
  then show ?case by (cases i) simp_all
qed

lemma ranges_over_set:
  "ranges_over kvs m \<Longrightarrow> set kvs = {(k, v). m k = Some v}"
  by (auto simp: ranges_over_def)

lemma set_status_fields:
  "Spec (set_status pj state err) = Spec pj"
  "ProwJob_Name (set_status pj state err) = ProwJob_Name pj"
  "ProwJob_Labels (set_status pj state err) = ProwJob_Labels pj"
  "ProwJob_Annotations (set_status pj state err) = ProwJob_Annotations pj"
  "State (Status (set_status pj state err)) = state"
  "Description (Status (set_status pj state err)) =
     (case err of None \<Rightarrow> Text ''Successfully triggered prowjob.''
      | Some e \<Rightarrow> FailedCreatingProwjob e)"
  by (simp_all add: set_status_def Let_def split: option.splits)

lemma set_reportProwJob:
  "Call_Create pj \<notin> set (reportProwJob r pj' state err)"
  by (simp add: reportProwJob_def Let_def split: option.splits)

lemma reportProwJob_calls:
  "Call_ShouldReport pj' \<in> set (reportProwJob r pj state err) \<longleftrightarrow> pj' = set_status pj state err"
  "Call_Report pj' \<in> set (reportProwJob r pj state err) \<longleftrightarrow>
     pj' = set_status pj state err \<and> ShouldReport r (set_status pj state err)"
  by (auto simp: reportProwJob_def Let_def split: option.splits)

lemma handleProwJob_rejected:
  assumes "FromPayload ext (Data msg) = Inr pe"
    and "jh (Config s) pe = ((Some spec, labels, None), logs)"
    and "\<not> clusterIsAllowed allowedClusters (Cluster spec)"
  shows "handleProwJob ext s h jh msg subscription allowedClusters =
     (Some (ClusterNotAllowed (Cluster spec)),
      Call_getProwJobSpec pe # map (\<lambda>(l, m). Log l m) logs @
      [Log WarnLevel ''cluster not allowed''] @
      reportProwJob (Reporter s) (NewProwJob ext spec None (Annotations pe)) ErrorState
        (Some (ClusterNotAllowed (Cluster spec))),
      h)"
  using assms by (simp add: handleProwJob_def reportProwJobFailure_def Let_def)

lemma handleProwJob_admitted:
  assumes "FromPayload ext (Data msg) = Inr pe"
    and "jh (Config s) pe = ((Some spec, labels, None), logs)"
    and "clusterIsAllowed allowedClusters (Cluster spec)"
  shows "handleProwJob ext s h jh msg subscription allowedClusters =
     (Create s (build_prowJob ext h pe spec labels),
      Call_getProwJobSpec pe # map (\<lambda>(l, m). Log l m) logs @
      (case Create s (build_prowJob ext h pe spec labels) of
         Some e \<Rightarrow>
           [Call_Create (build_prowJob ext h pe spec labels),
            Log ErrorLevel ''failed to create job %q as %q''] @
           reportProwJob (Reporter s) (build_prowJob ext h pe spec labels) ErrorState (Some e)
       | None \<Rightarrow>
           [Call_Create (build_prowJob ext h pe spec labels), Log InfoLevel ''Job created.''] @
           reportProwJob (Reporter s) (build_prowJob ext h pe spec labels) TriggeredState None),
      store_after_labels ext h pe labels)"
  using assms
  by (simp add: handleProwJob_def reportProwJobFailure_def reportProwJobTriggered_def Let_def
      split: option.splits)

lemma handleProwJob_Create_cases:
  assumes "Call_Create pj \<in> set (fst (snd (handleProwJob ext s h jh msg subscription allowedClusters)))"
  shows "\<exists>pe spec labels logs. FromPayload ext (Data msg) = Inr pe \<and>
     jh (Config s) pe = ((Some spec, labels, None), logs) \<and>
     clusterIsAllowed allowedClusters (Cluster spec) \<and>
     pj = build_prowJob ext h pe spec labels"
proof (cases "FromPayload ext (Data msg)")
  case (Inl e)
  with assms show ?thesis by (simp add: handleProwJob_def)
next
  case (Inr pe)
  obtain spec labels err logs where jh: "jh (Config s) pe = ((spec, labels, err), logs)"
    by (metis prod.exhaust)
  show ?thesis
  proof (cases err)
    case (Some e)
    with assms Inr jh show ?thesis
      by (auto simp: handleProwJob_def reportProwJobFailure_def set_reportProwJob)
  next
    case None
    show ?thesis
    proof (cases spec)
      case None
      with assms Inr jh \<open>err = None\<close> show ?thesis
        by (auto simp: handleProwJob_def)
    next
      case (Some sp)
      show ?thesis
      proof (cases "clusterIsAllowed allowedClusters (Cluster sp)")
        case False
        from handleProwJob_rejected [OF Inr _ False, of jh s labels logs h subscription] jh Some
          \<open>err = None\<close> assms
        show ?thesis by (auto simp: set_reportProwJob)
      next
        case True
        from handleProwJob_admitted [OF Inr _ True, of jh s labels logs h subscription] jh Some
          \<open>err = None\<close> assms
        have "pj = build_prowJob ext h pe sp labels"
          by (auto simp: set_reportProwJob split: option.splits)
        with Inr jh Some \<open>err = None\<close> True show ?thesis by auto
      qed
    qed
  qed
qed

lemma handleMessage_Create:
  assumes "Call_Create pj \<in> set (fst (snd (snd (handleMessage ext s metrics h msg subscription allowedClusters))))"
  shows "\<exists>eType jh. Attributes msg prowEventType = Some eType \<and>
     select_jobHandler ext s eType = Some jh \<and>
     Call_Create pj \<in> set (fst (snd (handleProwJob ext s h jh msg subscription allowedClusters)))"
proof (cases "Attributes msg prowEventType")
  case None
  with assms show ?thesis
    by (simp add: handleMessage_def extractFromAttribute_def)
next
  case (Some eType)
  show ?thesis
  proof (cases "select_jobHandler ext s eType")
    case None
    with assms Some show ?thesis
      by (simp add: handleMessage_def extractFromAttribute_def)
  next
    case (Some jh)
    with assms \<open>Attributes msg prowEventType = Some eType\<close>
    have "Call_Create pj \<in> set (fst (snd (handleProwJob ext s h jh msg subscription allowedClusters)))"
      by (auto simp: handleMessage_def extractFromAttribute_def Let_def
          split: prod.splits option.splits)
    with Some \<open>Attributes msg prowEventType = Some eType\<close> show ?thesis by simp
  qed
qed

lemma ex_payload:
  "FromPayload ex_ext (Data (ex_message attrs)) = Inr ex_event"
  by (simp add: ex_ext_def ex_message_def)

lemma ex_periodic_found:
  "periodic_getProwJobSpec ex_ext (Config ex_subscriber) ex_event =
     ((Some (PeriodicSpec ex_ext (ex_periodic ''hans'')), Periodic_Labels (ex_periodic ''hans''),
       None), [])"
  by (simp add: periodic_getProwJobSpec_def ex_subscriber_def ex_cfg_def ex_event_def
      ex_periodic_def)

lemma ex_cluster:
  "Cluster (PeriodicSpec ex_ext (ex_periodic ''hans'')) = ''default''"
  by (simp add: ex_ext_def ex_periodic_def)

lemma ex_ranges:
  "ranges_over (range_map ex_ext n (Labels ex_event)) (Labels ex_event)"
  "ranges_over (range_map ex_ext n (Envs ex_event)) (Envs ex_event)"
  by (simp_all add: ranges_over_def ex_ext_def ex_event_def)

text \<open>
  Claim C2. The scan of the allow-list admits a cluster exactly when the list holds that
  cluster or the entry \<open>*\<close>. For a resolved spec that is admitted, the ProwJob is handed to
  \<^verbatim>\<open>Create\<close> and the result is that of \<^verbatim>\<open>Create\<close>. For one that is rejected, the result is
  the error that names the spec's cluster; the ProwJob shown to the reporter is
  \<^verbatim>\<open>NewProwJob\<close> of the resolved spec as it is, with no labels and the event's annotations,
  its status set to the error state with that error as description and nothing else
  changed; it is reported when the reporter's predicate holds.
\<close>

theorem cluster_admission:
  "(clusterIsAllowed allowedClusters cluster \<longleftrightarrow>
      cluster \<in> set allowedClusters \<or> ''*'' \<in> set allowedClusters) \<and>
   (FromPayload ext (Data msg) = Inr pe \<and>
    jh (Config s) pe = ((Some spec, labels, None), logs) \<and>
    (Cluster spec \<in> set allowedClusters \<or> ''*'' \<in> set allowedClusters) \<longrightarrow>
      fst (handleProwJob ext s h jh msg subscription allowedClusters) =
        Create s (build_prowJob ext h pe spec labels) \<and>
      Call_Create (build_prowJob ext h pe spec labels) \<in>
        set (fst (snd (handleProwJob ext s h jh msg subscription allowedClusters)))) \<and>
   (FromPayload ext (Data msg) = Inr pe \<and>
    jh (Config s) pe = ((Some spec, labels, None), logs) \<and>
    Cluster spec \<notin> set allowedClusters \<and> ''*'' \<notin> set allowedClusters \<longrightarrow>
      handleProwJob ext s h jh msg subscription allowedClusters =
        (Some (ClusterNotAllowed (Cluster spec)),
         Call_getProwJobSpec pe # map (\<lambda>(l, m). Log l m) logs @
         [Log WarnLevel ''cluster not allowed''] @
         reportProwJob (Reporter s) (NewProwJob ext spec None (Annotations pe)) ErrorState
           (Some (ClusterNotAllowed (Cluster spec))),
         h) \<and>
      (\<forall>pj. Call_ShouldReport pj \<in> set (fst (snd (handleProwJob ext s h jh msg subscription allowedClusters)))
         \<longleftrightarrow> pj = set_status (NewProwJob ext spec None (Annotations pe)) ErrorState
                    (Some (ClusterNotAllowed (Cluster spec)))) \<and>
      (\<forall>pj. Call_Report pj \<in> set (fst (snd (handleProwJob ext s h jh msg subscription allowedClusters)))
         \<longleftrightarrow> pj = set_status (NewProwJob ext spec None (Annotations pe)) ErrorState
                    (Some (ClusterNotAllowed (Cluster spec))) \<and> ShouldReport (Reporter s) pj) \<and>
      Spec (set_status (NewProwJob ext spec None (Annotations pe)) ErrorState
              (Some (ClusterNotAllowed (Cluster spec)))) =
        Spec (NewProwJob ext spec None (Annotations pe)) \<and>
      State (Status (set_status (NewProwJob ext spec None (Annotations pe)) ErrorState
              (Some (ClusterNotAllowed (Cluster spec))))) = ErrorState \<and>
      Description (Status (set_status (NewProwJob ext spec None (Annotations pe)) ErrorState
              (Some (ClusterNotAllowed (Cluster spec))))) =
        FailedCreatingProwjob (ClusterNotAllowed (Cluster spec)))"
proof (intro conjI impI)
  show "clusterIsAllowed allowedClusters cluster \<longleftrightarrow>
      cluster \<in> set allowedClusters \<or> ''*'' \<in> set allowedClusters"
    by (auto simp: clusterIsAllowed_iff)
next
  assume a: "FromPayload ext (Data msg) = Inr pe \<and>
    jh (Config s) pe = ((Some spec, labels, None), logs) \<and>
    (Cluster spec \<in> set allowedClusters \<or> ''*'' \<in> set allowedClusters)"
  then have ok: "clusterIsAllowed allowedClusters (Cluster spec)"
    by (auto simp: clusterIsAllowed_iff)
  from a have p: "FromPayload ext (Data msg) = Inr pe"
    and h: "jh (Config s) pe = ((Some spec, labels, None), logs)" by simp_all
  note adm = handleProwJob_admitted [of ext msg pe jh s spec labels logs allowedClusters
      h subscription, OF p h ok]
  show "fst (handleProwJob ext s h jh msg subscription allowedClusters) =
        Create s (build_prowJob ext h pe spec labels)"
    by (simp add: adm)
  show "Call_Create (build_prowJob ext h pe spec labels) \<in>
        set (fst (snd (handleProwJob ext s h jh msg subscription allowedClusters)))"
    by (simp add: adm split: option.splits)
next
  assume a: "FromPayload ext (Data msg) = Inr pe \<and>
    jh (Config s) pe = ((Some spec, labels, None), logs) \<and>
    Cluster spec \<notin> set allowedClusters \<and> ''*'' \<notin> set allowedClusters"
  then have no: "\<not> clusterIsAllowed allowedClusters (Cluster spec)"
    by (auto simp: clusterIsAllowed_iff)
  from a have p: "FromPayload ext (Data msg) = Inr pe"
    and h: "jh (Config s) pe = ((Some spec, labels, None), logs)" by simp_all
  note rej = handleProwJob_rejected [of ext msg pe jh s spec labels logs allowedClusters
      h subscription, OF p h no]
  show "handleProwJob ext s h jh msg subscription allowedClusters =
        (Some (ClusterNotAllowed (Cluster spec)),
         Call_getProwJobSpec pe # map (\<lambda>(l, m). Log l m) logs @
         [Log WarnLevel ''cluster not allowed''] @
         reportProwJob (Reporter s) (NewProwJob ext spec None (Annotations pe)) ErrorState
           (Some (ClusterNotAllowed (Cluster spec))),
         h)"
    by (rule rej)
  show "\<forall>pj. Call_ShouldReport pj \<in> set (fst (snd (handleProwJob ext s h jh msg subscription allowedClusters)))
         \<longleftrightarrow> pj = set_status (NewProwJob ext spec None (Annotations pe)) ErrorState
                    (Some (ClusterNotAllowed (Cluster spec)))"
    by (auto simp: rej reportProwJob_calls)
  show "\<forall>pj. Call_Report pj \<in> set (fst (snd (handleProwJob ext s h jh msg subscription allowedClusters)))
         \<longleftrightarrow> pj = set_status (NewProwJob ext spec None (Annotations pe)) ErrorState
                    (Some (ClusterNotAllowed (Cluster spec))) \<and> ShouldReport (Reporter s) pj"
    by (auto simp: rej reportProwJob_calls)
  show "Spec (set_status (NewProwJob ext spec None (Annotations pe)) ErrorState
              (Some (ClusterNotAllowed (Cluster spec)))) =
        Spec (NewProwJob ext spec None (Annotations pe))"
    by (simp add: set_status_fields)
  show "State (Status (set_status (NewProwJob ext spec None (Annotations pe)) ErrorState
              (Some (ClusterNotAllowed (Cluster spec))))) = ErrorState"
    by (simp add: set_status_fields)
  show "Description (Status (set_status (NewProwJob ext spec None (Annotations pe)) ErrorState
              (Some (ClusterNotAllowed (Cluster spec))))) =
        FailedCreatingProwjob (ClusterNotAllowed (Cluster spec))"
    by (simp add: set_status_fields)
qed

theorem cluster_admission_witness:
  "FromPayload ex_ext (Data (ex_message Map.empty)) = Inr ex_event \<and>
   periodic_getProwJobSpec ex_ext (Config ex_subscriber) ex_event =
     ((Some (PeriodicSpec ex_ext (ex_periodic ''hans'')), Periodic_Labels (ex_periodic ''hans''),
       None), []) \<and>
   Cluster (PeriodicSpec ex_ext (ex_periodic ''hans'')) \<in> set [''build'', ''default''] \<and>
   Call_Create (build_prowJob ex_ext ex_store ex_event (PeriodicSpec ex_ext (ex_periodic ''hans''))
       (Periodic_Labels (ex_periodic ''hans''))) \<in>
     set (fst (snd (handleProwJob ex_ext ex_subscriber ex_store (periodic_getProwJobSpec ex_ext)
       (ex_message Map.empty) ''sub'' [''build'', ''default'']))) \<and>
   Cluster (PeriodicSpec ex_ext (ex_periodic ''hans'')) \<notin> set [''build''] \<and>
   ''*'' \<notin> set [''build''] \<and>
   fst (handleProwJob ex_ext ex_subscriber ex_store (periodic_getProwJobSpec ex_ext)
       (ex_message Map.empty) ''sub'' [''build'']) = Some (ClusterNotAllowed ''default'')"
proof -
  note a = cluster_admission [of "[''build'', ''default'']" "''default''" ex_ext
      "ex_message Map.empty" ex_event "periodic_getProwJobSpec ex_ext" ex_subscriber
      "PeriodicSpec ex_ext (ex_periodic ''hans'')" "Periodic_Labels (ex_periodic ''hans'')" "[]"
      ex_store "''sub''"]
  note r = cluster_admission [of "[''build'']" "''default''" ex_ext
      "ex_message Map.empty" ex_event "periodic_getProwJobSpec ex_ext" ex_subscriber
      "PeriodicSpec ex_ext (ex_periodic ''hans'')" "Periodic_Labels (ex_periodic ''hans'')" "[]"
      ex_store "''sub''"]
  from a r show ?thesis
    by (simp add: ex_payload ex_periodic_found ex_cluster)
qed

text \<open>
  Claim C3. Where a JobRecord is created means: a ProwJob is handed to \<^verbatim>\<open>Create\<close> of the
  ProwJob client. Every such call, in \<^verbatim>\<open>handleProwJob\<close> with any job handler and in
  \<^verbatim>\<open>handleMessage\<close> from end to end, is for a spec that the handler resolved and whose
  cluster the allow-list admits; for a resolved spec whose cluster is outside the
  allow-list there is no such call.
\<close>

theorem create_only_for_allowed_cluster:
  "(\<forall>pj. Call_Create pj \<in> set (fst (snd (handleProwJob ext s h jh msg subscription allowedClusters))) \<longrightarrow>
      (\<exists>pe spec labels logs. FromPayload ext (Data msg) = Inr pe \<and>
         jh (Config s) pe = ((Some spec, labels, None), logs) \<and>
         (Cluster spec \<in> set allowedClusters \<or> ''*'' \<in> set allowedClusters) \<and>
         pj = build_prowJob ext h pe spec labels)) \<and>
   (FromPayload ext (Data msg) = Inr pe \<and>
    jh (Config s) pe = ((Some spec, labels, None), logs) \<and>
    Cluster spec \<notin> set allowedClusters \<and> ''*'' \<notin> set allowedClusters \<longrightarrow>
      (\<forall>pj. Call_Create pj \<notin> set (fst (snd (handleProwJob ext s h jh msg subscription allowedClusters))))) \<and>
   (\<forall>pj. Call_Create pj \<in>
        set (fst (snd (snd (handleMessage ext s metrics h msg subscription allowedClusters)))) \<longrightarrow>
      (\<exists>eType jh pe spec labels logs. Attributes msg prowEventType = Some eType \<and>
         select_jobHandler ext s eType = Some jh \<and>
         FromPayload ext (Data msg) = Inr pe \<and>
         jh (Config s) pe = ((Some spec, labels, None), logs) \<and>
         (Cluster spec \<in> set allowedClusters \<or> ''*'' \<in> set allowedClusters) \<and>
         pj = build_prowJob ext h pe spec labels))"
proof (intro conjI allI impI)
  fix pj
  assume "Call_Create pj \<in> set (fst (snd (handleProwJob ext s h jh msg subscription allowedClusters)))"
  from handleProwJob_Create_cases [OF this]
  show "\<exists>pe spec labels logs. FromPayload ext (Data msg) = Inr pe \<and>
         jh (Config s) pe = ((Some spec, labels, None), logs) \<and>
         (Cluster spec \<in> set allowedClusters \<or> ''*'' \<in> set allowedClusters) \<and>
         pj = build_prowJob ext h pe spec labels"
    by (auto simp: clusterIsAllowed_iff)
next
  fix pj
  assume a: "FromPayload ext (Data msg) = Inr pe \<and>
    jh (Config s) pe = ((Some spec, labels, None), logs) \<and>
    Cluster spec \<notin> set allowedClusters \<and> ''*'' \<notin> set allowedClusters"
  show "Call_Create pj \<notin> set (fst (snd (handleProwJob ext s h jh msg subscription allowedClusters)))"
  proof
    assume "Call_Create pj \<in> set (fst (snd (handleProwJob ext s h jh msg subscription allowedClusters)))"
    from handleProwJob_Create_cases [OF this] a show False
      by (auto simp: clusterIsAllowed_iff)
  qed
next
  fix pj
  assume "Call_Create pj \<in>
        set (fst (snd (snd (handleMessage ext s metrics h msg subscription allowedClusters))))"
  from handleMessage_Create [OF this] obtain eType jh where
    e: "Attributes msg prowEventType = Some eType" "select_jobHandler ext s eType = Some jh"
    and c: "Call_Create pj \<in> set (fst (snd (handleProwJob ext s h jh msg subscription allowedClusters)))"
    by blast
  from handleProwJob_Create_cases [OF c] e
  show "\<exists>eType jh pe spec labels logs. Attributes msg prowEventType = Some eType \<and>
         select_jobHandler ext s eType = Some jh \<and>
         FromPayload ext (Data msg) = Inr pe \<and>
         jh (Config s) pe = ((Some spec, labels, None), logs) \<and>
         (Cluster spec \<in> set allowedClusters \<or> ''*'' \<in> set allowedClusters) \<and>
         pj = build_prowJob ext h pe spec labels"
    by (auto simp: clusterIsAllowed_iff)
qed

theorem create_only_for_allowed_cluster_witness:
  "FromPayload ex_ext (Data (ex_message [prowEventType \<mapsto> periodicProwJobEvent])) = Inr ex_event \<and>
   periodic_getProwJobSpec ex_ext (Config ex_subscriber) ex_event =
     ((Some (PeriodicSpec ex_ext (ex_periodic ''hans'')), Periodic_Labels (ex_periodic ''hans''),
       None), []) \<and>
   Cluster (PeriodicSpec ex_ext (ex_periodic ''hans'')) \<notin> set [''build''] \<and>
   ''*'' \<notin> set [''build''] \<and>
   (\<forall>pj. Call_Create pj \<notin> set (fst (snd (handleProwJob ex_ext ex_subscriber ex_store
       (periodic_getProwJobSpec ex_ext) (ex_message [prowEventType \<mapsto> periodicProwJobEvent])
       ''sub'' [''build''])))) \<and>
   Call_Create (build_prowJob ex_ext ex_store ex_event (PeriodicSpec ex_ext (ex_periodic ''hans''))
       (Periodic_Labels (ex_periodic ''hans''))) \<in>
     set (fst (snd (snd (handleMessage ex_ext ex_subscriber
       \<lparr>MessageCounter = Map.empty, ErrorCounter = Map.empty\<rparr> ex_store
       (ex_message [prowEventType \<mapsto> periodicProwJobEvent]) ''sub'' [''default''])))) \<and>
   (\<exists>eType jh pe spec labels logs.
      Attributes (ex_message [prowEventType \<mapsto> periodicProwJobEvent]) prowEventType = Some eType \<and>
      select_jobHandler ex_ext ex_subscriber eType = Some jh \<and>
      FromPayload ex_ext (Data (ex_message [prowEventType \<mapsto> periodicProwJobEvent])) = Inr pe \<and>
      jh (Config ex_subscriber) pe = ((Some spec, labels, None), logs) \<and>
      (Cluster spec \<in> set [''default''] \<or> ''*'' \<in> set [''default'']) \<and>
      build_prowJob ex_ext ex_store ex_event (PeriodicSpec ex_ext (ex_periodic ''hans''))
        (Periodic_Labels (ex_periodic ''hans'')) = build_prowJob ex_ext ex_store pe spec labels)"
proof -
  let ?msg = "ex_message [prowEventType \<mapsto> periodicProwJobEvent]"
  let ?job = "build_prowJob ex_ext ex_store ex_event (PeriodicSpec ex_ext (ex_periodic ''hans''))
       (Periodic_Labels (ex_periodic ''hans''))"
  let ?metrics = "\<lparr>MessageCounter = Map.empty, ErrorCounter = Map.empty\<rparr>"
  note rejected = create_only_for_allowed_cluster [of ex_ext ex_subscriber ex_store
      "periodic_getProwJobSpec ex_ext" ?msg "''sub''" "[''build'']" ex_event
      "PeriodicSpec ex_ext (ex_periodic ''hans'')" "Periodic_Labels (ex_periodic ''hans'')" "[]"]
  note admitted = create_only_for_allowed_cluster [of ex_ext ex_subscriber ex_store
      "periodic_getProwJobSpec ex_ext" ?msg "''sub''" "[''default'']" ex_event
      "PeriodicSpec ex_ext (ex_periodic ''hans'')" "Periodic_Labels (ex_periodic ''hans'')" "[]"
      ?metrics]
  have ok: "clusterIsAllowed [''default''] (Cluster (PeriodicSpec ex_ext (ex_periodic ''hans'')))"
    by (simp add: ex_cluster)
  have created: "Create ex_subscriber ?job = None"
    by (simp add: ex_subscriber_def)
  have run: "handleProwJob ex_ext ex_subscriber ex_store (periodic_getProwJobSpec ex_ext) ?msg ''sub''
      [''default''] =
    (None, Call_getProwJobSpec ex_event # [Call_Create ?job, Log InfoLevel ''Job created.''] @
       reportProwJob (Reporter ex_subscriber) ?job TriggeredState None,
     store_after_labels ex_ext ex_store ex_event (Periodic_Labels (ex_periodic ''hans'')))"
    using handleProwJob_admitted [of ex_ext ?msg ex_event "periodic_getProwJobSpec ex_ext"
        ex_subscriber "PeriodicSpec ex_ext (ex_periodic ''hans'')"
        "Periodic_Labels (ex_periodic ''hans'')" "[]" "[''default'']" ex_store "''sub''",
        OF ex_payload ex_periodic_found ok]
    by (simp add: created)
  have sel: "select_jobHandler ex_ext ex_subscriber periodicProwJobEvent =
      Some (periodic_getProwJobSpec ex_ext)"
    by (simp add: select_jobHandler_def)
  have attr: "extractFromAttribute (Attributes ?msg) prowEventType = (periodicProwJobEvent, None)"
    by (simp add: extractFromAttribute_def ex_message_def)
  have sent: "Call_Create ?job \<in> set (fst (snd (snd (handleMessage ex_ext ex_subscriber ?metrics ex_store
      ?msg ''sub'' [''default'']))))"
    by (simp add: handleMessage_def attr sel run Let_def)
  from admitted sent have found: "\<exists>eType jh pe spec labels logs.
      Attributes ?msg prowEventType = Some eType \<and>
      select_jobHandler ex_ext ex_subscriber eType = Some jh \<and>
      FromPayload ex_ext (Data ?msg) = Inr pe \<and>
      jh (Config ex_subscriber) pe = ((Some spec, labels, None), logs) \<and>
      (Cluster spec \<in> set [''default''] \<or> ''*'' \<in> set [''default'']) \<and>
      ?job = build_prowJob ex_ext ex_store pe spec labels"
    by blast
  from rejected have none: "\<forall>pj. Call_Create pj \<notin> set (fst (snd (handleProwJob ex_ext ex_subscriber ex_store
       (periodic_getProwJobSpec ex_ext) ?msg ''sub'' [''build''])))"
    by (simp add: ex_payload ex_periodic_found ex_cluster)
  have c: "Cluster (PeriodicSpec ex_ext (ex_periodic ''hans'')) \<notin> set [''build'']"
    "''*'' \<notin> set [''build'']"
    by (simp_all add: ex_cluster)
  show ?thesis
    using ex_payload [of "[prowEventType \<mapsto> periodicProwJobEvent]"] ex_periodic_found c none
      sent found
    by (intro conjI)
qed

text \<open>
  One admitted dispatch, from a given store. One ProwJob is handed to \<^verbatim>\<open>Create\<close>. The
  labels it is built with are the contents of the job's map in that store (none when the
  map is \<^verbatim>\<open>nil\<close>) overridden by the event's labels, and the job's map is left with those
  contents in the store. When the ProwJob has a pod spec, every container keeps its
  environment and gets, appended behind it, one variable for each entry of the event's
  environment, whether or not a variable of that name is there already. The two
  hypotheses on \<open>range_map\<close> say that a \<^verbatim>\<open>range\<close> over a map visits each entry once.
\<close>

lemma one_dispatch_labels_and_envs:
  assumes "FromPayload ext (Data msg) = Inr pe"
    and "jh (Config s) pe = ((Some spec, labels, None), logs)"
    and "Cluster spec \<in> set allowedClusters \<or> ''*'' \<in> set allowedClusters"
    and "ranges_over (range_map ext 0 (Labels pe)) (Labels pe)"
    and "\<forall>i. ranges_over (range_map ext (Suc i) (Envs pe)) (Envs pe)"
  shows "(\<forall>pj. Call_Create pj \<in> set (fst (snd (handleProwJob ext s h jh msg subscription allowedClusters)))
            \<longleftrightarrow> pj = build_prowJob ext h pe spec labels) \<and>
     merged_labels ext h pe labels = (case labels of None \<Rightarrow> Map.empty | Some r \<Rightarrow> h r) ++ Labels pe \<and>
     snd (snd (handleProwJob ext s h jh msg subscription allowedClusters)) =
       (case labels of None \<Rightarrow> h | Some r \<Rightarrow> h(r := h r ++ Labels pe)) \<and>
     (let prowJob = NewProwJob ext spec
            (Some ((case labels of None \<Rightarrow> Map.empty | Some r \<Rightarrow> h r) ++ Labels pe)) (Annotations pe)
      in case Spec_PodSpec (Spec prowJob) of
           None \<Rightarrow> build_prowJob ext h pe spec labels = prowJob
         | Some pod \<Rightarrow>
             (\<exists>cs. build_prowJob ext h pe spec labels =
                      prowJob\<lparr>Spec := (Spec prowJob)\<lparr>Spec_PodSpec := Some (pod\<lparr>Containers := cs\<rparr>)\<rparr>\<rparr> \<and>
                length cs = length (Containers pod) \<and>
                (\<forall>i<length cs.
                   cs ! i = (Containers pod ! i)\<lparr>Env := Env (Containers pod ! i) @
                     map (\<lambda>(k, v). \<lparr>EnvVar_Name = k, EnvVar_Value = v\<rparr>)
                       (range_map ext (Suc i) (Envs pe))\<rparr> \<and>
                   distinct (range_map ext (Suc i) (Envs pe)) \<and>
                   set (range_map ext (Suc i) (Envs pe)) = {(k, v). Envs pe k = Some v})))"
proof (intro conjI)
  from assms(3) have ok: "clusterIsAllowed allowedClusters (Cluster spec)"
    by (auto simp: clusterIsAllowed_iff)
  note adm = handleProwJob_admitted [of ext msg pe jh s spec labels logs allowedClusters
      h subscription, OF assms(1) assms(2) ok]
  show "\<forall>pj. Call_Create pj \<in> set (fst (snd (handleProwJob ext s h jh msg subscription allowedClusters)))
            \<longleftrightarrow> pj = build_prowJob ext h pe spec labels"
    by (auto simp: adm set_reportProwJob split: option.splits)
next
  from assms(4) show merged:
    "merged_labels ext h pe labels = (case labels of None \<Rightarrow> Map.empty | Some r \<Rightarrow> h r) ++ Labels pe"
    by (simp add: merged_labels_def ranges_over_def set_labels_map_add)
  from assms(3) have ok: "clusterIsAllowed allowedClusters (Cluster spec)"
    by (auto simp: clusterIsAllowed_iff)
  note adm = handleProwJob_admitted [of ext msg pe jh s spec labels logs allowedClusters
      h subscription, OF assms(1) assms(2) ok]
  show "snd (snd (handleProwJob ext s h jh msg subscription allowedClusters)) =
       (case labels of None \<Rightarrow> h | Some r \<Rightarrow> h(r := h r ++ Labels pe))"
    using merged by (auto simp: adm store_after_labels_def split: option.splits)
  define prowJob where "prowJob = NewProwJob ext spec
      (Some ((case labels of None \<Rightarrow> Map.empty | Some r \<Rightarrow> h r) ++ Labels pe)) (Annotations pe)"
  have build: "build_prowJob ext h pe spec labels =
      (case Spec_PodSpec (Spec prowJob) of
         None \<Rightarrow> prowJob
       | Some pod \<Rightarrow>
           prowJob\<lparr>Spec := (Spec prowJob)\<lparr>Spec_PodSpec := Some (pod\<lparr>Containers :=
             update_containers (\<lambda>i. range_map ext (Suc i) (Envs pe)) 0 (Containers pod)\<rparr>)\<rparr>\<rparr>)"
    unfolding build_prowJob_def merged prowJob_def Let_def ..
  have "case Spec_PodSpec (Spec prowJob) of
           None \<Rightarrow> build_prowJob ext h pe spec labels = prowJob
         | Some pod \<Rightarrow>
             (\<exists>cs. build_prowJob ext h pe spec labels =
                      prowJob\<lparr>Spec := (Spec prowJob)\<lparr>Spec_PodSpec := Some (pod\<lparr>Containers := cs\<rparr>)\<rparr>\<rparr> \<and>
                length cs = length (Containers pod) \<and>
                (\<forall>i<length cs.
                   cs ! i = (Containers pod ! i)\<lparr>Env := Env (Containers pod ! i) @
                     map (\<lambda>(k, v). \<lparr>EnvVar_Name = k, EnvVar_Value = v\<rparr>)
                       (range_map ext (Suc i) (Envs pe))\<rparr> \<and>
                   distinct (range_map ext (Suc i) (Envs pe)) \<and>
                   set (range_map ext (Suc i) (Envs pe)) = {(k, v). Envs pe k = Some v}))"
  proof (cases "Spec_PodSpec (Spec prowJob)")
    case None
    then show ?thesis by (simp add: build)
  next
    case (Some pod)
    let ?cs = "update_containers (\<lambda>i. range_map ext (Suc i) (Envs pe)) 0 (Containers pod)"
    have "build_prowJob ext h pe spec labels =
        prowJob\<lparr>Spec := (Spec prowJob)\<lparr>Spec_PodSpec := Some (pod\<lparr>Containers := ?cs\<rparr>)\<rparr>\<rparr>"
      by (simp add: build Some)
    moreover have "length ?cs = length (Containers pod)" by simp
    moreover have "\<forall>i<length ?cs.
        ?cs ! i = (Containers pod ! i)\<lparr>Env := Env (Containers pod ! i) @
          map (\<lambda>(k, v). \<lparr>EnvVar_Name = k, EnvVar_Value = v\<rparr>) (range_map ext (Suc i) (Envs pe))\<rparr> \<and>
        distinct (range_map ext (Suc i) (Envs pe)) \<and>
        set (range_map ext (Suc i) (Envs pe)) = {(k, v). Envs pe k = Some v}"
    proof (intro allI impI conjI)
      fix i
      assume "i < length ?cs"
      then show "?cs ! i = (Containers pod ! i)\<lparr>Env := Env (Containers pod ! i) @
          map (\<lambda>(k, v). \<lparr>EnvVar_Name = k, EnvVar_Value = v\<rparr>) (range_map ext (Suc i) (Envs pe))\<rparr>"
        by (simp add: nth_update_containers append_envs_eq)
      from assms(5) have r: "ranges_over (range_map ext (Suc i) (Envs pe)) (Envs pe)" by simp
      then show "distinct (range_map ext (Suc i) (Envs pe))"
        by (simp add: ranges_over_def distinct_map)
      from r show "set (range_map ext (Suc i) (Envs pe)) = {(k, v). Envs pe k = Some v}"
        by (rule ranges_over_set)
    qed
    ultimately show ?thesis using Some by auto
  qed
  then show "let prowJob = NewProwJob ext spec
            (Some ((case labels of None \<Rightarrow> Map.empty | Some r \<Rightarrow> h r) ++ Labels pe)) (Annotations pe)
      in case Spec_PodSpec (Spec prowJob) of
           None \<Rightarrow> build_prowJob ext h pe spec labels = prowJob
         | Some pod \<Rightarrow>
             (\<exists>cs. build_prowJob ext h pe spec labels =
                      prowJob\<lparr>Spec := (Spec prowJob)\<lparr>Spec_PodSpec := Some (pod\<lparr>Containers := cs\<rparr>)\<rparr>\<rparr> \<and>
                length cs = length (Containers pod) \<and>
                (\<forall>i<length cs.
                   cs ! i = (Containers pod ! i)\<lparr>Env := Env (Containers pod ! i) @
                     map (\<lambda>(k, v). \<lparr>EnvVar_Name = k, EnvVar_Value = v\<rparr>)
                       (range_map ext (Suc i) (Envs pe))\<rparr> \<and>
                   distinct (range_map ext (Suc i) (Envs pe)) \<and>
                   set (range_map ext (Suc i) (Envs pe)) = {(k, v). Envs pe k = Some v}))"
    unfolding prowJob_def Let_def .
qed

lemma ProwJob_Labels_build_prowJob:
  "ProwJob_Labels (build_prowJob ext h pe spec labels) =
   ProwJob_Labels (NewProwJob ext spec (Some (merged_labels ext h pe labels)) (Annotations pe))"
  by (simp add: build_prowJob_def Let_def split: option.splits)

lemma ex_NewProwJob_labels:
  "ProwJob_Labels (NewProwJob ex_ext spec (Some l) annotations) = l"
  by (simp add: ex_ext_def)

lemma ex_payload_no_labels:
  "FromPayload ex_ext (Data ex_message_no_labels) = Inr (ex_event\<lparr>Labels := Map.empty\<rparr>)"
  by (simp add: ex_ext_def ex_message_no_labels_def)

lemma ex_periodic_found_no_labels:
  "periodic_getProwJobSpec ex_ext (Config ex_subscriber) (ex_event\<lparr>Labels := Map.empty\<rparr>) =
     ((Some (PeriodicSpec ex_ext (ex_periodic ''hans'')), Some 0, None), [])"
  by (simp add: periodic_getProwJobSpec_def ex_subscriber_def ex_cfg_def ex_event_def
      ex_periodic_def)

lemma ex_first_store:
  "store_after_labels ex_ext ex_store ex_event (Some 0) = ex_store(0 := [''k'' \<mapsto> ''v''])"
  by (simp add: store_after_labels_def merged_labels_def ex_ext_def ex_event_def ex_store_def)

lemma ex_first_dispatch_eq:
  "ex_first_dispatch =
     (None,
      \<lparr>MessageCounter = [''sub'' \<mapsto> 1], ErrorCounter = Map.empty\<rparr>,
      [Log InfoLevel ''Received message'', Call_getProwJobSpec ex_event,
       Call_Create (build_prowJob ex_ext ex_store ex_event
         (PeriodicSpec ex_ext (ex_periodic ''hans'')) (Some 0)),
       Log InfoLevel ''Job created.''] @
      reportProwJob (Reporter ex_subscriber)
        (build_prowJob ex_ext ex_store ex_event (PeriodicSpec ex_ext (ex_periodic ''hans''))
           (Some 0)) TriggeredState None,
      ex_store(0 := [''k'' \<mapsto> ''v'']))"
proof -
  let ?msg = "ex_message [prowEventType \<mapsto> periodicProwJobEvent]"
  have ok: "clusterIsAllowed [''*''] (Cluster (PeriodicSpec ex_ext (ex_periodic ''hans'')))"
    by simp
  have found: "periodic_getProwJobSpec ex_ext (Config ex_subscriber) ex_event =
     ((Some (PeriodicSpec ex_ext (ex_periodic ''hans'')), Some 0, None), [])"
    using ex_periodic_found by (simp add: ex_periodic_def)
  have created: "\<And>pj. Create ex_subscriber pj = None"
    by (simp add: ex_subscriber_def)
  have run: "handleProwJob ex_ext ex_subscriber ex_store (periodic_getProwJobSpec ex_ext) ?msg
      ''sub'' [''*''] =
    (None,
     Call_getProwJobSpec ex_event #
     [Call_Create (build_prowJob ex_ext ex_store ex_event
        (PeriodicSpec ex_ext (ex_periodic ''hans'')) (Some 0)),
      Log InfoLevel ''Job created.''] @
     reportProwJob (Reporter ex_subscriber)
       (build_prowJob ex_ext ex_store ex_event (PeriodicSpec ex_ext (ex_periodic ''hans''))
          (Some 0)) TriggeredState None,
     ex_store(0 := [''k'' \<mapsto> ''v'']))"
    using handleProwJob_admitted [of ex_ext ?msg ex_event "periodic_getProwJobSpec ex_ext"
        ex_subscriber "PeriodicSpec ex_ext (ex_periodic ''hans'')" "Some 0" "[]" "[''*'']"
        ex_store "''sub''", OF ex_payload found ok]
    by (simp add: created ex_first_store)
  have sel: "select_jobHandler ex_ext ex_subscriber periodicProwJobEvent =
      Some (periodic_getProwJobSpec ex_ext)"
    by (simp add: select_jobHandler_def)
  have attr: "extractFromAttribute (Attributes ?msg) prowEventType = (periodicProwJobEvent, None)"
    by (simp add: extractFromAttribute_def ex_message_def)
  show ?thesis
    unfolding ex_first_dispatch_def
    by (simp add: handleMessage_def attr sel run Let_def With_def Inc_def)
qed

text \<open>
  Claim C7, at two dispatches of one job. The job \<open>hans\<close> declares the label \<open>k = job\<close>.
  The first message carries \<open>k = v\<close>: its ProwJob is built with \<open>k = v\<close>, as the claim says,
  and the write of lines 408 to 410 leaves \<open>k = v\<close> in the job's own map. The second
  message carries no labels: the claim gives its ProwJob the declared \<open>k = job\<close>, and the
  source builds it with \<open>k = v\<close>, the label of the first event.
\<close>

theorem second_dispatch_inherits_labels:
  "Periodic_Labels (ex_periodic ''hans'') = Some 0 \<and>
   ex_store 0 = [''k'' \<mapsto> ''job''] \<and>
   FromPayload ex_ext (Data (ex_message [prowEventType \<mapsto> periodicProwJobEvent])) =
     Inr ex_event \<and>
   Labels ex_event = [''k'' \<mapsto> ''v''] \<and>
   fst ex_first_dispatch = None \<and>
   Call_Create (build_prowJob ex_ext ex_store ex_event
       (PeriodicSpec ex_ext (ex_periodic ''hans'')) (Some 0)) \<in>
     set (fst (snd (snd ex_first_dispatch))) \<and>
   merged_labels ex_ext ex_store ex_event (Some 0) = [''k'' \<mapsto> ''v''] \<and>
   snd (snd (snd ex_first_dispatch)) 0 = [''k'' \<mapsto> ''v''] \<and>
   FromPayload ex_ext (Data ex_message_no_labels) = Inr (ex_event\<lparr>Labels := Map.empty\<rparr>) \<and>
   Labels (ex_event\<lparr>Labels := Map.empty\<rparr>) = Map.empty \<and>
   fst ex_second_dispatch = None \<and>
   Call_Create (build_prowJob ex_ext (snd (snd (snd ex_first_dispatch)))
       (ex_event\<lparr>Labels := Map.empty\<rparr>) (PeriodicSpec ex_ext (ex_periodic ''hans'')) (Some 0)) \<in>
     set (fst (snd (snd ex_second_dispatch))) \<and>
   merged_labels ex_ext (snd (snd (snd ex_first_dispatch))) (ex_event\<lparr>Labels := Map.empty\<rparr>)
       (Some 0) = [''k'' \<mapsto> ''v''] \<and>
   ProwJob_Labels (build_prowJob ex_ext (snd (snd (snd ex_first_dispatch)))
       (ex_event\<lparr>Labels := Map.empty\<rparr>) (PeriodicSpec ex_ext (ex_periodic ''hans'')) (Some 0)) ''k'' =
     Some ''v'' \<and>
   (ex_store 0 ++ Labels (ex_event\<lparr>Labels := Map.empty\<rparr>)) ''k'' = Some ''job''"
proof -
  let ?h1 = "ex_store(0 := [''k'' \<mapsto> ''v''])"
  let ?pe2 = "ex_event\<lparr>Labels := Map.empty\<rparr>"
  let ?spec = "PeriodicSpec ex_ext (ex_periodic ''hans'')"
  have h1: "snd (snd (snd ex_first_dispatch)) = ?h1"
    by (simp add: ex_first_dispatch_eq)
  have m1: "fst (snd ex_first_dispatch) = \<lparr>MessageCounter = [''sub'' \<mapsto> 1], ErrorCounter = Map.empty\<rparr>"
    by (simp add: ex_first_dispatch_eq)
  have ok: "clusterIsAllowed [''*''] (Cluster ?spec)"
    by simp
  have created: "\<And>pj. Create ex_subscriber pj = None"
    by (simp add: ex_subscriber_def)
  have run: "handleProwJob ex_ext ex_subscriber ?h1 (periodic_getProwJobSpec ex_ext)
      ex_message_no_labels ''sub'' [''*''] =
    (None,
     Call_getProwJobSpec ?pe2 #
     [Call_Create (build_prowJob ex_ext ?h1 ?pe2 ?spec (Some 0)), Log InfoLevel ''Job created.''] @
     reportProwJob (Reporter ex_subscriber) (build_prowJob ex_ext ?h1 ?pe2 ?spec (Some 0))
       TriggeredState None,
     store_after_labels ex_ext ?h1 ?pe2 (Some 0))"
    using handleProwJob_admitted [of ex_ext ex_message_no_labels ?pe2
        "periodic_getProwJobSpec ex_ext" ex_subscriber ?spec "Some 0" "[]" "[''*'']"
        ?h1 "''sub''", OF ex_payload_no_labels ex_periodic_found_no_labels ok]
    by (simp add: created)
  have sel: "select_jobHandler ex_ext ex_subscriber periodicProwJobEvent =
      Some (periodic_getProwJobSpec ex_ext)"
    by (simp add: select_jobHandler_def)
  have attr: "extractFromAttribute (Attributes ex_message_no_labels) prowEventType =
      (periodicProwJobEvent, None)"
    by (simp add: extractFromAttribute_def ex_message_no_labels_def)
  have second: "fst ex_second_dispatch = None"
    "Call_Create (build_prowJob ex_ext ?h1 ?pe2 ?spec (Some 0)) \<in>
       set (fst (snd (snd ex_second_dispatch)))"
    unfolding ex_second_dispatch_def h1 m1
    by (simp_all add: handleMessage_def attr sel run Let_def)
  have merged1: "merged_labels ex_ext ex_store ex_event (Some 0) = [''k'' \<mapsto> ''v'']"
    by (simp add: merged_labels_def ex_ext_def ex_event_def ex_store_def)
  have merged2: "merged_labels ex_ext ?h1 ?pe2 (Some 0) = [''k'' \<mapsto> ''v'']"
    by (simp add: merged_labels_def ex_ext_def ex_event_def)
  have built: "ProwJob_Labels (build_prowJob ex_ext ?h1 ?pe2 ?spec (Some 0)) ''k'' = Some ''v''"
    by (simp add: ProwJob_Labels_build_prowJob merged2 ex_NewProwJob_labels)
  have declared: "(ex_store 0 ++ Labels ?pe2) ''k'' = Some ''job''"
    by (simp add: ex_store_def)
  have first: "fst ex_first_dispatch = None"
    "Call_Create (build_prowJob ex_ext ex_store ex_event ?spec (Some 0)) \<in>
       set (fst (snd (snd ex_first_dispatch)))"
    by (simp_all add: ex_first_dispatch_eq)
  have basics: "Periodic_Labels (ex_periodic ''hans'') = Some 0"
    "ex_store 0 = [''k'' \<mapsto> ''job'']" "Labels ex_event = [''k'' \<mapsto> ''v'']"
    "Labels ?pe2 = Map.empty"
    by (simp_all add: ex_periodic_def ex_store_def ex_event_def)
  show ?thesis
    unfolding h1
    using basics ex_payload [of "[prowEventType \<mapsto> periodicProwJobEvent]"] first merged1
      ex_payload_no_labels second merged2 built declared
    by (intro conjI) simp_all
qed

subsection \<open>Reporting\<close>










subsection \<open>Message handling\<close>

lemma handleProwJob_GitClient:
  "handleProwJob ext (s\<lparr>GitClient := g\<rparr>) h jh msg subscription allowedClusters =
   handleProwJob ext s h jh msg subscription allowedClusters"
  by (simp add: handleProwJob_def Let_def split: sum.splits prod.splits option.splits)

text \<open>
  Claim C10. Two periodic events of the same name get the same spec, labels and error
  from configurations with the same periodics, whatever their refs, environment, labels
  and annotations and whatever the dynamic getters of the configurations do; the handler
  chosen for a periodic message does not hold the git client, and the whole handling of
  such a message is the same for every git client.
\<close>

theorem periodic_depends_on_name_and_catalog:
  "(Name pe1 = Name pe2 \<and> AllPeriodics cfg1 = AllPeriodics cfg2 \<longrightarrow>
      periodic_getProwJobSpec ext cfg1 pe1 = periodic_getProwJobSpec ext cfg2 pe2) \<and>
   select_jobHandler ext s periodicProwJobEvent = Some (periodic_getProwJobSpec ext) \<and>
   (Attributes msg prowEventType = Some periodicProwJobEvent \<longrightarrow>
      handleMessage ext (s\<lparr>GitClient := g\<rparr>) metrics h msg subscription allowedClusters =
      handleMessage ext s metrics h msg subscription allowedClusters)"
proof (intro conjI impI)
  assume "Name pe1 = Name pe2 \<and> AllPeriodics cfg1 = AllPeriodics cfg2"
  then show "periodic_getProwJobSpec ext cfg1 pe1 = periodic_getProwJobSpec ext cfg2 pe2"
    by (simp add: periodic_getProwJobSpec_def split: option.splits)
next
  show "select_jobHandler ext s periodicProwJobEvent = Some (periodic_getProwJobSpec ext)"
    by (simp add: select_jobHandler_def)
next
  assume "Attributes msg prowEventType = Some periodicProwJobEvent"
  then show "handleMessage ext (s\<lparr>GitClient := g\<rparr>) metrics h msg subscription allowedClusters =
      handleMessage ext s metrics h msg subscription allowedClusters"
    by (simp add: handleMessage_def extractFromAttribute_def select_jobHandler_def
        handleProwJob_GitClient)
qed

theorem periodic_depends_on_name_and_catalog_witness:
  "Name ex_event = Name (ex_event\<lparr>Refs := None, Envs := Map.empty, Labels := Map.empty,
       Annotations := [''a'' \<mapsto> ''b'']\<rparr>) \<and>
   AllPeriodics (ex_cfg [ex_periodic ''hans''] [] []) =
     AllPeriodics (ex_cfg [ex_periodic ''hans''] [ex_presubmit ''hans'' ''main''] []) \<and>
   periodic_getProwJobSpec ex_ext (ex_cfg [ex_periodic ''hans''] [] []) ex_event =
     periodic_getProwJobSpec ex_ext
       (ex_cfg [ex_periodic ''hans''] [ex_presubmit ''hans'' ''main''] [])
       (ex_event\<lparr>Refs := None, Envs := Map.empty, Labels := Map.empty,
          Annotations := [''a'' \<mapsto> ''b'']\<rparr>) \<and>
   Attributes (ex_message [prowEventType \<mapsto> periodicProwJobEvent]) prowEventType =
     Some periodicProwJobEvent \<and>
   handleMessage ex_ext (ex_subscriber\<lparr>GitClient := Some (ClientFactory 0)\<rparr>)
       \<lparr>MessageCounter = Map.empty, ErrorCounter = Map.empty\<rparr> ex_store
       (ex_message [prowEventType \<mapsto> periodicProwJobEvent]) ''sub'' [''*''] =
     handleMessage ex_ext ex_subscriber
       \<lparr>MessageCounter = Map.empty, ErrorCounter = Map.empty\<rparr> ex_store
       (ex_message [prowEventType \<mapsto> periodicProwJobEvent]) ''sub'' [''*'']"
  using periodic_depends_on_name_and_catalog [of ex_event
      "ex_event\<lparr>Refs := None, Envs := Map.empty, Labels := Map.empty,
         Annotations := [''a'' \<mapsto> ''b'']\<rparr>"
      "ex_cfg [ex_periodic ''hans''] [] []"
      "ex_cfg [ex_periodic ''hans''] [ex_presubmit ''hans'' ''main''] []" ex_ext ex_subscriber
      "ex_message [prowEventType \<mapsto> periodicProwJobEvent]" "Some (ClientFactory 0)"
      "\<lparr>MessageCounter = Map.empty, ErrorCounter = Map.empty\<rparr>" ex_store "''sub''" "[''*'']"]
  by (simp add: ex_message_def ex_cfg_def)

lemma counter_value_With [simp]:
  "counter_value (With vec l) l' = counter_value vec l'"
  by (simp add: counter_value_def With_def split: option.splits)

text \<open>
  No path of \<^verbatim>\<open>handleMessage\<close> changes the value of an error counter.
\<close>

lemma handleMessage_ErrorCounter:
  "counter_value
     (ErrorCounter (fst (snd (handleMessage ext s metrics h msg subscription allowedClusters)))) l =
   counter_value (ErrorCounter metrics) l"
  by (simp add: handleMessage_def Let_def split: prod.splits option.splits)

text \<open>
  Claim C4, at two messages: one without the attribute \<^verbatim>\<open>prow.k8s.io/pubsub.EventType\<close>
  and one whose value for it is not one of the three event types. Both return the error,
  and neither resolves a job spec nor calls the reporter or \<^verbatim>\<open>Create\<close>: the effects are
  two log lines. The message counter of the subscription goes from 0 to 1. The error
  counter of the subscription is created and stays at 0: the source obtains the counter
  with \<^verbatim>\<open>With\<close> and does not call \<^verbatim>\<open>Inc\<close> on it.
\<close>

theorem error_counter_is_not_incremented:
  "handleMessage ex_ext ex_subscriber \<lparr>MessageCounter = Map.empty, ErrorCounter = Map.empty\<rparr>
      ex_store (ex_message Map.empty) ''sub'' [''*''] =
     (Some (AttributeNotFound prowEventType),
      \<lparr>MessageCounter = [''sub'' \<mapsto> 1], ErrorCounter = [''sub'' \<mapsto> 0]\<rparr>,
      [Log InfoLevel ''Received message'', Log ErrorLevel ''failed to read message''],
      ex_store) \<and>
   handleMessage ex_ext ex_subscriber \<lparr>MessageCounter = Map.empty, ErrorCounter = Map.empty\<rparr>
      ex_store (ex_message [prowEventType \<mapsto> ''bogus'']) ''sub'' [''*''] =
     (Some (UnsupportedEventType ''bogus''),
      \<lparr>MessageCounter = [''sub'' \<mapsto> 1], ErrorCounter = [''sub'' \<mapsto> 0]\<rparr>,
      [Log InfoLevel ''Received message'', Log DebugLevel ''Unsupported event type''],
      ex_store) \<and>
   counter_value [''sub'' \<mapsto> 0] ''sub'' = 0"
  by (simp add: handleMessage_def extractFromAttribute_def ex_message_def select_jobHandler_def
      With_def Inc_def counter_value_def prowEventType_def periodicProwJobEvent_def
      presubmitProwJobEvent_def postsubmitProwJobEvent_def)

end
